theory Spec2Isabelle
  imports Main "HOL-Library.Sublist"
begin

section \<open>HTTP metadata inventory service\<close>

text \<open>
  The service keeps, per URL, the headers, cookies and page source of the last successful
  HTTP GET of that URL.  The Python modules are embedded function by function; module-level
  variables (\<open>_http_client\<close>, \<open>_database\<close>, \<open>_pending_urls\<close>) and everything outside the
  process (the remote web, the wall clock, the MongoDB server, the logging output, the event
  loop's task list) are fields of one explicit state that every function receives and returns.
  A Python exception is a value of type \<open>exn\<close>; a function that may raise returns
  \<open>exn + 'a\<close> with \<open>Inl\<close> for the raised exception.
\<close>

subsection \<open>Values, exceptions and documents\<close>

text \<open>A \<open>datetime\<close> is a point on a linear time line (an integer number of clock ticks).\<close>

type_synonym timestamp = int

text \<open>A Python \<open>dict\<close> of strings, as produced by \<open>dict(response.headers)\<close>.\<close>

type_synonym dict = "string \<rightharpoonup> string"

text \<open>
  The exceptions the code raises or lets through.  Each of them is a subclass of Python's
  \<open>Exception\<close>: \<open>RuntimeError\<close> (raised by \<open>_get_client\<close> and \<open>get_database\<close>),
  \<open>httpx.HTTPStatusError\<close> with the status code of its response, \<open>httpx.RequestError\<close>
  with its message, \<open>pymongo.errors.PyMongoError\<close>, \<open>pydantic.ValidationError\<close>, and
  \<open>fastapi.HTTPException\<close> with status code and detail.
\<close>

datatype exn =
    RuntimeError string
  | HTTPStatusError nat
  | RequestError string
  | PyMongoError
  | ValidationError
  | HTTPException nat string

text \<open>The values stored in a MongoDB document of the \<open>metadata\<close> collection.\<close>

datatype bson = BStr string | BDict dict | BTime timestamp | BId nat

type_synonym document = "string \<rightharpoonup> bson"

text \<open>\<open>class MetadataDocument(BaseModel)\<close> of \<open>app/models/metadata.py\<close>.\<close>

record MetadataDocument =
  url :: string
  headers :: dict
  cookies :: dict
  page_source :: string
  created_at :: timestamp
  updated_at :: timestamp

text \<open>The response models of \<open>app/models/metadata.py\<close>, fields in declaration order.\<close>

datatype MetadataResponse = MetadataResponse string dict dict string timestamp timestamp

datatype AcceptedResponse = AcceptedResponse string string

datatype CreatedResponse = CreatedResponse string string

text \<open>What a route hands back to the framework: the status code with the body model.\<close>

datatype http_result =
    Ok200 MetadataResponse
  | Created201 CreatedResponse
  | Accepted202 AcceptedResponse

subsection \<open>The world outside the process\<close>

text \<open>The part of an \<open>httpx.Response\<close> that the collector reads.\<close>

record response =
  status_code :: nat
  resp_headers :: dict
  resp_cookies :: dict
  body_text :: string

text \<open>
  The outcome of \<open>await client.get(url)\<close>: the request fails in transport (a
  \<open>RequestError\<close> with a message: timeout, refused connection, DNS) or a response arrives.
\<close>

datatype net_result = RequestFailed string | Responded response

text \<open>The configuration of the shared \<open>httpx.AsyncClient\<close>.\<close>

record client =
  timeout :: nat
  follow_redirects :: bool
  max_connections :: nat
  max_keepalive_connections :: nat

text \<open>
  A record handed to the \<open>logging\<close> module: level, format string, arguments, and the
  exception attached by \<open>logger.exception\<close>.
\<close>

datatype level = INFO | ERROR

datatype log_arg = AStr string | ANat nat | AExn exn

datatype log_record = LogRecord level string "log_arg list" "exn option"

text \<open>
  The external effects, in the order they happen: a GET sent to a URL, a reading of the
  wall clock, a \<open>find_one\<close> and an \<open>update_one\<close> sent to the database.
\<close>

datatype effect = NetGet string | ClockRead | DbFind string | DbUpdate string

text \<open>
  The state.  \<open>http_client\<close> is the module variable \<open>_http_client\<close>, \<open>database\<close> tells
  whether \<open>_database\<close> is set, \<open>pending_urls\<close> is \<open>_pending_urls\<close>.  \<open>remote\<close> is what the
  web answers to a GET at present, \<open>clock\<close> what \<open>datetime.now(timezone.utc)\<close> returns at
  present, \<open>metadata\<close> the documents of the collection \<open>db.metadata\<close> in their natural
  order, \<open>db_online\<close> whether the server answers.  \<open>tasks\<close> lists the coroutines given to
  \<open>asyncio.create_task\<close>, each a \<open>_background_collect(url)\<close>, by their URL.
\<close>

record state =
  http_client :: "client option"
  database :: bool
  pending_urls :: "string set"
  remote :: "string \<Rightarrow> net_result"
  clock :: timestamp
  metadata :: "document list"
  db_online :: bool
  tasks :: "string list"
  log_records :: "log_record list"
  trace :: "effect list"

definition logger_info :: "string \<Rightarrow> log_arg list \<Rightarrow> state \<Rightarrow> state" where
  "logger_info fmt args s = s\<lparr>log_records := log_records s @ [LogRecord INFO fmt args None]\<rparr>"

definition logger_error :: "string \<Rightarrow> log_arg list \<Rightarrow> state \<Rightarrow> state" where
  "logger_error fmt args s = s\<lparr>log_records := log_records s @ [LogRecord ERROR fmt args None]\<rparr>"

definition logger_exception :: "string \<Rightarrow> log_arg list \<Rightarrow> exn \<Rightarrow> state \<Rightarrow> state" where
  "logger_exception fmt args e s =
     s\<lparr>log_records := log_records s @ [LogRecord ERROR fmt args (Some e)]\<rparr>"

definition effect :: "effect \<Rightarrow> state \<Rightarrow> state" where
  "effect ev s = s\<lparr>trace := trace s @ [ev]\<rparr>"

subsection \<open>\<open>app/services/collector.py\<close>\<close>

definition create_http_client :: "nat \<Rightarrow> state \<Rightarrow> state" where
  "create_http_client request_timeout s =
     logger_info ''Shared HTTP client created.'' []
       (s\<lparr>http_client := Some \<lparr>timeout = request_timeout, follow_redirects = True,
            max_connections = 50, max_keepalive_connections = 10\<rparr>\<rparr>)"

definition close_http_client :: "state \<Rightarrow> state" where
  "close_http_client s =
     (case http_client s of
        None \<Rightarrow> s
      | Some c \<Rightarrow> logger_info ''Shared HTTP client closed.'' [] (s\<lparr>http_client := None\<rparr>))"

definition get_client :: "state \<Rightarrow> exn + client" where
  "get_client s =
     (case http_client s of
        None \<Rightarrow> Inl (RuntimeError ''HTTP client is not initialised. Call create_http_client() first.'')
      | Some c \<Rightarrow> Inr c)"

text \<open>
  \<open>Response.raise_for_status\<close> of httpx: a response whose status is not a success
  (\<open>2xx\<close>) raises \<open>HTTPStatusError\<close>.
\<close>

definition is_success :: "response \<Rightarrow> bool" where
  "is_success r = (200 \<le> status_code r \<and> status_code r \<le> 299)"

definition raise_for_status :: "response \<Rightarrow> exn + unit" where
  "raise_for_status r = (if is_success r then Inr () else Inl (HTTPStatusError (status_code r)))"

text \<open>
  The dictionary returned by \<open>collect_metadata\<close>, by its three keys.  In the second log
  message of \<open>collect_metadata\<close> a hyphen stands for the dash of the source.
\<close>

record raw =
  raw_headers :: dict
  raw_cookies :: dict
  raw_page_source :: string

definition collect_metadata :: "string \<Rightarrow> state \<Rightarrow> (exn + raw) \<times> state" where
  "collect_metadata u s =
     (let s1 = logger_info ''Collecting metadata for URL: %s'' [AStr u] s in
      case get_client s1 of
        Inl e \<Rightarrow> (Inl e, s1)
      | Inr c \<Rightarrow>
          (let s2 = effect (NetGet u) s1 in
           case remote s2 u of
             RequestFailed msg \<Rightarrow> (Inl (RequestError msg), s2)
           | Responded r \<Rightarrow>
               (case raise_for_status r of
                  Inl e \<Rightarrow> (Inl e, s2)
                | Inr _ \<Rightarrow>
                    (let hs = resp_headers r; cs = resp_cookies r; src = body_text r in
                     (Inr \<lparr>raw_headers = hs, raw_cookies = cs, raw_page_source = src\<rparr>,
                      logger_info
                        ''Metadata collected for %s - headers: %d, cookies: %d, page_source length: %d''
                        [AStr u, ANat (card (dom hs)), ANat (card (dom cs)), ANat (length src)]
                        s2)))))"

subsection \<open>The MongoDB collection\<close>

text \<open>
  The two driver calls the repository makes, with the semantics MongoDB documents for them.
  A filter is a list of field equalities.  \<open>find_one\<close> returns the first matching document.
  \<open>update_one\<close> with \<open>upsert=True\<close> applies \<open>$set\<close> to the first matching document and
  leaves \<open>$setOnInsert\<close> aside; when no document matches it inserts a new one made of the
  filter's equalities, the \<open>$set\<close> fields, the \<open>$setOnInsert\<close> fields and a fresh \<open>_id\<close>.
  The collection keeps every value as it was written.
\<close>

definition matches :: "(string \<times> bson) list \<Rightarrow> document \<Rightarrow> bool" where
  "matches flt d = list_all (\<lambda>(k, v). d k = Some v) flt"

definition find_one :: "(string \<times> bson) list \<Rightarrow> document list \<Rightarrow> document option" where
  "find_one flt ds = find (matches flt) ds"

fun update_or_insert ::
  "(string \<times> bson) list \<Rightarrow> document \<Rightarrow> document \<Rightarrow> bson \<Rightarrow> document list \<Rightarrow> document list" where
  "update_or_insert flt st soi oid [] = [(map_of flt ++ st ++ soi)(''_id'' \<mapsto> oid)]"
| "update_or_insert flt st soi oid (d # ds) =
     (if matches flt d then (d ++ st) # ds else d # update_or_insert flt st soi oid ds)"

definition update_one ::
  "(string \<times> bson) list \<Rightarrow> document \<Rightarrow> document \<Rightarrow> document list \<Rightarrow> document list" where
  "update_one flt st soi ds = update_or_insert flt st soi (BId (length ds)) ds"

subsection \<open>\<open>app/database/mongodb.py\<close> and \<open>app/models/metadata.py\<close>\<close>

definition get_database :: "state \<Rightarrow> exn + unit" where
  "get_database s =
     (if database s then Inr ()
      else Inl (RuntimeError ''Database is not initialised. Call connect_to_mongodb() first.''))"

definition to_mongo_dict :: "MetadataDocument \<Rightarrow> document" where
  "to_mongo_dict doc =
     [''url'' \<mapsto> BStr (url doc),
      ''headers'' \<mapsto> BDict (headers doc),
      ''cookies'' \<mapsto> BDict (cookies doc),
      ''page_source'' \<mapsto> BStr (page_source doc),
      ''created_at'' \<mapsto> BTime (created_at doc),
      ''updated_at'' \<mapsto> BTime (updated_at doc)]"

text \<open>
  \<open>MetadataDocument(**doc)\<close>: \<open>url\<close> is required, the other fields have defaults (the
  timestamps default to a reading of the clock), fields the model does not declare are
  ignored, and a field of the wrong type is a \<open>ValidationError\<close>.
\<close>

definition bind :: "exn + 'a \<Rightarrow> ('a \<Rightarrow> exn + 'b) \<Rightarrow> exn + 'b" where
  "bind r f = (case r of Inl e \<Rightarrow> Inl e | Inr v \<Rightarrow> f v)"

definition str_field :: "document \<Rightarrow> string \<Rightarrow> string option \<Rightarrow> exn + string" where
  "str_field d k dflt =
     (case d k of
        Some (BStr v) \<Rightarrow> Inr v
      | Some _ \<Rightarrow> Inl ValidationError
      | None \<Rightarrow> (case dflt of Some v \<Rightarrow> Inr v | None \<Rightarrow> Inl ValidationError))"

definition dict_field :: "document \<Rightarrow> string \<Rightarrow> exn + dict" where
  "dict_field d k =
     (case d k of
        Some (BDict v) \<Rightarrow> Inr v
      | Some _ \<Rightarrow> Inl ValidationError
      | None \<Rightarrow> Inr Map.empty)"

definition time_field :: "document \<Rightarrow> string \<Rightarrow> state \<Rightarrow> (exn + timestamp) \<times> state" where
  "time_field d k s =
     (case d k of
        Some (BTime v) \<Rightarrow> (Inr v, s)
      | Some _ \<Rightarrow> (Inl ValidationError, s)
      | None \<Rightarrow> (Inr (clock s), effect ClockRead s))"

definition MetadataDocument_of :: "document \<Rightarrow> state \<Rightarrow> (exn + MetadataDocument) \<times> state" where
  "MetadataDocument_of d s =
     (let (c, s1) = time_field d ''created_at'' s;
          (m, s2) = time_field d ''updated_at'' s1
      in (bind (str_field d ''url'' None) (\<lambda>u.
          bind (dict_field d ''headers'') (\<lambda>hs.
          bind (dict_field d ''cookies'') (\<lambda>cs.
          bind (str_field d ''page_source'' (Some [])) (\<lambda>src.
          bind c (\<lambda>ca.
          bind m (\<lambda>ua.
            Inr \<lparr>url = u, headers = hs, cookies = cs, page_source = src,
                 created_at = ca, updated_at = ua\<rparr>)))))), s2))"

subsection \<open>\<open>app/database/repository.py\<close>\<close>

definition upsert_metadata :: "MetadataDocument \<Rightarrow> timestamp \<Rightarrow> state \<Rightarrow> (exn + unit) \<times> state" where
  "upsert_metadata doc now s =
     (case get_database s of
        Inl e \<Rightarrow> (Inl e, s)
      | Inr db \<Rightarrow>
          (let update_data = (to_mongo_dict doc)(''created_at'' := None);
               s1 = effect (DbUpdate (url doc)) s
           in if \<not> db_online s1 then (Inl PyMongoError, s1)
              else (Inr (),
                    logger_info ''Metadata record upserted for %s'' [AStr (url doc)]
                      (s1\<lparr>metadata :=
                           update_one [(''url'', BStr (url doc))] update_data
                             [''created_at'' \<mapsto> BTime now] (metadata s1)\<rparr>))))"

definition find_metadata_by_url :: "string \<Rightarrow> state \<Rightarrow> (exn + MetadataDocument option) \<times> state" where
  "find_metadata_by_url u s =
     (case get_database s of
        Inl e \<Rightarrow> (Inl e, s)
      | Inr db \<Rightarrow>
          (let s1 = effect (DbFind u) s
           in if \<not> db_online s1 then (Inl PyMongoError, s1)
              else (case find_one [(''url'', BStr u)] (metadata s1) of
                      None \<Rightarrow> (Inr None, s1)
                    | Some d \<Rightarrow>
                        (case MetadataDocument_of (d(''_id'' := None)) s1 of
                           (Inl e, s2) \<Rightarrow> (Inl e, s2)
                         | (Inr doc, s2) \<Rightarrow> (Inr (Some doc), s2)))))"

subsection \<open>\<open>app/services/metadata_service.py\<close>\<close>

definition create_metadata_record :: "string \<Rightarrow> state \<Rightarrow> (exn + MetadataDocument) \<times> state" where
  "create_metadata_record u s =
     (case collect_metadata u s of
        (Inl e, s1) \<Rightarrow> (Inl e, s1)
      | (Inr rw, s1) \<Rightarrow>
          (let now = clock s1;
               s2 = effect ClockRead s1;
               doc = \<lparr>url = u, headers = raw_headers rw, cookies = raw_cookies rw,
                      page_source = raw_page_source rw, created_at = now, updated_at = now\<rparr>
           in case upsert_metadata doc now s2 of
                (Inl e, s3) \<Rightarrow> (Inl e, s3)
              | (Inr _, s3) \<Rightarrow> (Inr doc, s3)))"

definition get_metadata_record :: "string \<Rightarrow> state \<Rightarrow> (exn + MetadataDocument option) \<times> state" where
  "get_metadata_record u s = find_metadata_by_url u s"

text \<open>
  \<open>_background_collect\<close>: the \<open>try\<close> block, the \<open>except Exception\<close> handler, which catches
  every exception of type \<open>exn\<close> (all of them derive from \<open>Exception\<close>), and the
  \<open>finally\<close> block, which runs on both paths.  The result is what the coroutine hands to
  its task: \<open>Inr ()\<close> for a normal return, \<open>Inl\<close> for an exception that leaves it.
\<close>

definition background_collect :: "string \<Rightarrow> state \<Rightarrow> (exn + unit) \<times> state" where
  "background_collect u s =
     (let s1 = logger_info ''Background collection started for %s'' [AStr u] s;
          (r, s3) =
            (case create_metadata_record u s1 of
               (Inr doc, s2) \<Rightarrow>
                 (Inr (), logger_info ''Background collection completed for %s'' [AStr u] s2)
             | (Inl e, s2) \<Rightarrow>
                 (Inr (), logger_exception ''Background collection failed for %s'' [AStr u] e s2))
      in (r, s3\<lparr>pending_urls := pending_urls s3 - {u}\<rparr>))"

text \<open>
  \<open>schedule_background_collection\<close> is a plain function without \<open>await\<close>, called from the
  coroutine \<open>get_metadata\<close>, so the event loop is running and \<open>asyncio.create_task\<close> accepts
  the coroutine: the new task is appended to \<open>tasks\<close>.
\<close>

definition schedule_background_collection :: "string \<Rightarrow> state \<Rightarrow> bool \<times> state" where
  "schedule_background_collection u s =
     (if u \<in> pending_urls s
      then (False, logger_info ''Background collection already in-flight for %s'' [AStr u] s)
      else (True,
            logger_info ''Background collection task scheduled for %s'' [AStr u]
              (s\<lparr>pending_urls := insert u (pending_urls s), tasks := tasks s @ [u]\<rparr>)))"

subsection \<open>\<open>app/routes/metadata.py\<close>\<close>

text \<open>The decimal digits of a number, as an f-string prints a status code.\<close>

fun str_nat :: "nat \<Rightarrow> string" where
  "str_nat n =
     (if n < 10 then [char_of (48 + n)] else str_nat (n div 10) @ [char_of (48 + n mod 10)])"

text \<open>
  \<open>post_metadata\<close> receives the request body already validated; \<open>u\<close> is \<open>str(body.url)\<close>.
  The two \<open>except\<close> clauses turn the two httpx exceptions into an \<open>HTTPException\<close> with
  status 502; any other exception leaves the route as it is.
\<close>

definition post_metadata :: "string \<Rightarrow> state \<Rightarrow> (exn + http_result) \<times> state" where
  "post_metadata u s =
     (case create_metadata_record u s of
        (Inl (HTTPStatusError code), s1) \<Rightarrow>
          (Inl (HTTPException 502 (''Target URL returned HTTP '' @ str_nat code @ ''.'')),
           logger_error ''HTTP error collecting %s: %s'' [AStr u, AExn (HTTPStatusError code)] s1)
      | (Inl (RequestError msg), s1) \<Rightarrow>
          (Inl (HTTPException 502 (''Could not reach the target URL: '' @ msg)),
           logger_error ''Network error collecting %s: %s'' [AStr u, AExn (RequestError msg)] s1)
      | (Inl e, s1) \<Rightarrow> (Inl e, s1)
      | (Inr doc, s1) \<Rightarrow>
          (Inr (Created201 (CreatedResponse ''Metadata collected and stored successfully.'' u)), s1))"

definition model_dump_response :: "MetadataDocument \<Rightarrow> MetadataResponse" where
  "model_dump_response record =
     MetadataResponse (url record) (headers record) (cookies record) (page_source record)
       (created_at record) (updated_at record)"

definition get_metadata :: "string \<Rightarrow> state \<Rightarrow> (exn + http_result) \<times> state" where
  "get_metadata u s =
     (if \<not> (prefix ''http://'' u \<or> prefix ''https://'' u)
      then (Inl (HTTPException 400 ''URL must start with http:// or https://''), s)
      else (case get_metadata_record u s of
              (Inl e, s1) \<Rightarrow> (Inl e, s1)
            | (Inr (Some record), s1) \<Rightarrow> (Inr (Ok200 (model_dump_response record)), s1)
            | (Inr None, s1) \<Rightarrow>
                (let (scheduled, s2) = schedule_background_collection u s1
                 in (Inr (Accepted202
                            (AcceptedResponse
                               ''Request accepted. Metadata is being collected in the background.''
                               u)),
                     s2))))"

subsection \<open>The running service\<close>

text \<open>
  The module-level initialisers: no client, no database handle, nothing in flight.  The
  arguments are the world the process starts in.
\<close>

definition initial :: "(string \<Rightarrow> net_result) \<Rightarrow> timestamp \<Rightarrow> document list \<Rightarrow> state" where
  "initial web t docs =
     \<lparr>http_client = None, database = False, pending_urls = {}, remote = web, clock = t,
      metadata = docs, db_online = True, tasks = [], log_records = [], trace = []\<rparr>"

text \<open>The document the collection holds for a URL: the one \<open>find_one\<close> returns for it.\<close>

definition stored :: "string \<Rightarrow> state \<Rightarrow> document option" where
  "stored u s = find_one [(''url'', BStr u)] (metadata s)"

text \<open>The \<open>$set\<close> part of the update that \<open>upsert_metadata\<close> sends for a document.\<close>

definition update_data_of :: "MetadataDocument \<Rightarrow> document" where
  "update_data_of doc = (to_mongo_dict doc)(''created_at'' := None)"

text \<open>A stored document whose two timestamps are present and in order.\<close>

definition ordered :: "document \<Rightarrow> bool" where
  "ordered d =
     (case (d ''created_at'', d ''updated_at'') of
        (Some (BTime c), Some (BTime m)) \<Rightarrow> c \<le> m
      | _ \<Rightarrow> False)"

text \<open>
  A stored document with the six fields of \<open>MetadataDocument\<close>, each of its type: what
  \<open>MetadataDocument(**doc)\<close> reads back without a default and without an error.
\<close>

fun is_str :: "bson option \<Rightarrow> bool" where
  "is_str (Some (BStr v)) = True"
| "is_str other = False"

fun is_dict :: "bson option \<Rightarrow> bool" where
  "is_dict (Some (BDict v)) = True"
| "is_dict other = False"

fun is_time :: "bson option \<Rightarrow> bool" where
  "is_time (Some (BTime v)) = True"
| "is_time other = False"

definition complete :: "document \<Rightarrow> bool" where
  "complete d =
     (is_str (d ''url'') \<and> is_dict (d ''headers'') \<and> is_dict (d ''cookies'')
      \<and> is_str (d ''page_source'') \<and> is_time (d ''created_at'') \<and> is_time (d ''updated_at''))"

text \<open>
  What can happen to the service: the world changes (clock, web, reachability of the
  database), the lifespan creates or closes the HTTP client, a request arrives at one of
  the two routes, or the event loop runs a created task to its end.
\<close>

datatype event =
    SetClock timestamp
  | SetRemote "string \<Rightarrow> net_result"
  | SetOnline bool
  | CreateClient nat
  | CloseClient
  | PostMetadata string
  | GetMetadata string
  | RunTask string

definition run_task :: "string \<Rightarrow> state \<Rightarrow> state" where
  "run_task u s =
     (if u \<in> set (tasks s)
      then (let s1 = snd (background_collect u s) in s1\<lparr>tasks := remove1 u (tasks s1)\<rparr>)
      else s)"

fun step :: "event \<Rightarrow> state \<Rightarrow> state" where
  "step (SetClock t) s = s\<lparr>clock := t\<rparr>"
| "step (SetRemote web) s = s\<lparr>remote := web\<rparr>"
| "step (SetOnline b) s = s\<lparr>db_online := b\<rparr>"
| "step (CreateClient request_timeout) s = create_http_client request_timeout s"
| "step CloseClient s = close_http_client s"
| "step (PostMetadata u) s = snd (post_metadata u s)"
| "step (GetMetadata u) s = snd (get_metadata u s)"
| "step (RunTask u) s = run_task u s"

definition run :: "event list \<Rightarrow> state \<Rightarrow> state" where
  "run es s = fold step es s"

text \<open>
  Scheduling calls made one after the other, for the URLs of a list, no task finishing in
  between; the results in call order.  \<open>accepted u\<close> counts the calls for \<open>u\<close> that
  returned \<open>True\<close>.
\<close>

fun schedule_each :: "string list \<Rightarrow> state \<Rightarrow> bool list \<times> state" where
  "schedule_each [] s = ([], s)"
| "schedule_each (v # vs) s =
     (let (b, s1) = schedule_background_collection v s;
          (bs, s2) = schedule_each vs s1
      in (b # bs, s2))"

definition accepted :: "string \<Rightarrow> string list \<Rightarrow> bool list \<Rightarrow> nat" where
  "accepted u vs bs = length (filter (\<lambda>(v, b). v = u \<and> b) (zip vs bs))"

subsection \<open>Names for intermediate values\<close>

text \<open>The record \<open>create_metadata_record\<close> builds from a response and the timestamp \<open>now\<close>.\<close>

definition candidate :: "string \<Rightarrow> response \<Rightarrow> timestamp \<Rightarrow> MetadataDocument" where
  "candidate u r now =
     \<lparr>url = u, headers = resp_headers r, cookies = resp_cookies r, page_source = body_text r,
      created_at = now, updated_at = now\<rparr>"

text \<open>The state of \<open>create_metadata_record\<close> once the fetch has succeeded and the clock is read.\<close>

definition fetched :: "string \<Rightarrow> response \<Rightarrow> state \<Rightarrow> state" where
  "fetched u r s =
     effect ClockRead
       (logger_info
          ''Metadata collected for %s - headers: %d, cookies: %d, page_source length: %d''
          [AStr u, ANat (card (dom (resp_headers r))), ANat (card (dom (resp_cookies r))),
           ANat (length (body_text r))]
          (effect (NetGet u) (logger_info ''Collecting metadata for URL: %s'' [AStr u] s)))"

text \<open>The collection after the \<open>update_one\<close> that \<open>upsert_metadata\<close> sends.\<close>

definition upserted :: "MetadataDocument \<Rightarrow> timestamp \<Rightarrow> document list \<Rightarrow> document list" where
  "upserted doc now ds =
     update_one [(''url'', BStr (url doc))] (update_data_of doc) [''created_at'' \<mapsto> BTime now] ds"

subsection \<open>Example inputs\<close>

definition page_v1 :: response where
  "page_v1 = \<lparr>status_code = 200, resp_headers = [''content-type'' \<mapsto> ''text/html''],
              resp_cookies = Map.empty, body_text = ''<html>v1</html>''\<rparr>"

definition page_v2 :: response where
  "page_v2 = \<lparr>status_code = 200, resp_headers = [''content-type'' \<mapsto> ''text/html''],
              resp_cookies = Map.empty, body_text = ''<html>v2</html>''\<rparr>"

definition not_found :: response where
  "not_found = \<lparr>status_code = 404, resp_headers = Map.empty, resp_cookies = Map.empty,
                body_text = []\<rparr>"

text \<open>A started service with an empty collection, the web answering every GET alike.\<close>

definition serving :: "net_result \<Rightarrow> timestamp \<Rightarrow> state" where
  "serving answer t =
     (create_http_client 15 (initial (\<lambda>u. answer) t []))\<lparr>database := True, log_records := []\<rparr>"

definition example_url :: string where
  "example_url = ''https://example.com''"

text \<open>The state after a first successful collection of the example URL at time 100.\<close>

definition first_visit :: state where
  "first_visit = snd (create_metadata_record example_url (serving (Responded page_v1) 100))"

text \<open>
  The state after a second successful collection of the example URL, the web now serving
  the second page and the clock reading \<open>t\<close>.
\<close>

definition second_visit :: "timestamp \<Rightarrow> state" where
  "second_visit t =
     snd (create_metadata_record example_url
            (first_visit\<lparr>clock := t, remote := (\<lambda>u. Responded page_v2)\<rparr>))"

text \<open>A started service with an empty collection in which the example URL is in flight.\<close>

definition busy :: state where
  "busy = (serving (Responded page_v1) 0)\<lparr>pending_urls := {example_url},
             tasks := [example_url]\<rparr>"

section \<open>Properties\<close>

subsection \<open>Auxiliary facts\<close>


lemmas state_ops = logger_info_def logger_error_def logger_exception_def effect_def

lemma collect_metadata_no_client:
  "http_client s = None \<Longrightarrow>
     collect_metadata u s =
       (Inl (RuntimeError ''HTTP client is not initialised. Call create_http_client() first.''),
        logger_info ''Collecting metadata for URL: %s'' [AStr u] s)"
  by (simp add: collect_metadata_def Let_def state_ops get_client_def)

lemma collect_metadata_request_failed:
  "http_client s \<noteq> None \<Longrightarrow> remote s u = RequestFailed msg \<Longrightarrow>
     collect_metadata u s =
       (Inl (RequestError msg),
        effect (NetGet u) (logger_info ''Collecting metadata for URL: %s'' [AStr u] s))"
  by (cases "http_client s") (simp_all add: collect_metadata_def Let_def state_ops get_client_def)

lemma collect_metadata_bad_status:
  "http_client s \<noteq> None \<Longrightarrow> remote s u = Responded r \<Longrightarrow> \<not> is_success r \<Longrightarrow>
     collect_metadata u s =
       (Inl (HTTPStatusError (status_code r)),
        effect (NetGet u) (logger_info ''Collecting metadata for URL: %s'' [AStr u] s))"
  by (cases "http_client s") (simp_all add: collect_metadata_def Let_def state_ops get_client_def raise_for_status_def)

lemma collect_metadata_success:
  "http_client s \<noteq> None \<Longrightarrow> remote s u = Responded r \<Longrightarrow> is_success r \<Longrightarrow>
     collect_metadata u s =
       (Inr \<lparr>raw_headers = resp_headers r, raw_cookies = resp_cookies r,
             raw_page_source = body_text r\<rparr>,
        logger_info
          ''Metadata collected for %s - headers: %d, cookies: %d, page_source length: %d''
          [AStr u, ANat (card (dom (resp_headers r))), ANat (card (dom (resp_cookies r))),
           ANat (length (body_text r))]
          (effect (NetGet u) (logger_info ''Collecting metadata for URL: %s'' [AStr u] s)))"
  by (cases "http_client s") (simp_all add: collect_metadata_def Let_def state_ops get_client_def raise_for_status_def)

lemma upsert_metadata_no_database:
  "\<not> database s \<Longrightarrow>
     upsert_metadata doc now s =
       (Inl (RuntimeError ''Database is not initialised. Call connect_to_mongodb() first.''), s)"
  by (simp add: upsert_metadata_def get_database_def)

lemma upsert_metadata_offline:
  "database s \<Longrightarrow> \<not> db_online s \<Longrightarrow>
     upsert_metadata doc now s = (Inl PyMongoError, effect (DbUpdate (url doc)) s)"
  by (simp add: upsert_metadata_def get_database_def Let_def state_ops)

lemma upsert_metadata_online:
  "database s \<Longrightarrow> db_online s \<Longrightarrow>
     upsert_metadata doc now s =
       (Inr (),
        logger_info ''Metadata record upserted for %s'' [AStr (url doc)]
          ((effect (DbUpdate (url doc)) s)\<lparr>metadata :=
              update_one [(''url'', BStr (url doc))] (update_data_of doc)
                [''created_at'' \<mapsto> BTime now] (metadata s)\<rparr>))"
  by (simp add: upsert_metadata_def get_database_def Let_def state_ops update_data_of_def)

lemma create_metadata_record_no_client:
  "http_client s = None \<Longrightarrow>
     create_metadata_record u s =
       (Inl (RuntimeError ''HTTP client is not initialised. Call create_http_client() first.''),
        logger_info ''Collecting metadata for URL: %s'' [AStr u] s)"
  by (simp add: create_metadata_record_def collect_metadata_no_client)

lemma create_metadata_record_request_failed:
  "http_client s \<noteq> None \<Longrightarrow> remote s u = RequestFailed msg \<Longrightarrow>
     create_metadata_record u s =
       (Inl (RequestError msg),
        effect (NetGet u) (logger_info ''Collecting metadata for URL: %s'' [AStr u] s))"
  by (simp add: create_metadata_record_def collect_metadata_request_failed)

lemma create_metadata_record_bad_status:
  "http_client s \<noteq> None \<Longrightarrow> remote s u = Responded r \<Longrightarrow> \<not> is_success r \<Longrightarrow>
     create_metadata_record u s =
       (Inl (HTTPStatusError (status_code r)),
        effect (NetGet u) (logger_info ''Collecting metadata for URL: %s'' [AStr u] s))"
  by (simp add: create_metadata_record_def collect_metadata_bad_status)

lemma fetched_fields [simp]:
  "database (fetched u r s) = database s" "db_online (fetched u r s) = db_online s"
  "clock (fetched u r s) = clock s" "metadata (fetched u r s) = metadata s"
  "pending_urls (fetched u r s) = pending_urls s" "tasks (fetched u r s) = tasks s"
  "remote (fetched u r s) = remote s" "http_client (fetched u r s) = http_client s"
  "trace (fetched u r s) = trace s @ [NetGet u, ClockRead]"
  by (simp_all add: fetched_def state_ops)

lemma create_metadata_record_fetched:
  "http_client s \<noteq> None \<Longrightarrow> remote s u = Responded r \<Longrightarrow> is_success r \<Longrightarrow>
     create_metadata_record u s =
       (case upsert_metadata (candidate u r (clock s)) (clock s) (fetched u r s) of
          (Inl e, s3) \<Rightarrow> (Inl e, s3)
        | (Inr x, s3) \<Rightarrow> (Inr (candidate u r (clock s)), s3))"
  by (simp add: create_metadata_record_def collect_metadata_success Let_def candidate_def
        fetched_def state_ops split: prod.splits sum.splits)

lemma create_metadata_record_success:
  "http_client s \<noteq> None \<Longrightarrow> remote s u = Responded r \<Longrightarrow> is_success r \<Longrightarrow>
   database s \<Longrightarrow> db_online s \<Longrightarrow>
     create_metadata_record u s =
       (Inr (candidate u r (clock s)),
        logger_info ''Metadata record upserted for %s'' [AStr u]
          ((effect (DbUpdate u) (fetched u r s))\<lparr>metadata :=
              update_one [(''url'', BStr u)] (update_data_of (candidate u r (clock s)))
                [''created_at'' \<mapsto> BTime (clock s)] (metadata s)\<rparr>))"
  by (simp add: create_metadata_record_fetched upsert_metadata_online) (simp add: candidate_def)

lemma create_metadata_record_no_database:
  "http_client s \<noteq> None \<Longrightarrow> remote s u = Responded r \<Longrightarrow> is_success r \<Longrightarrow>
   \<not> database s \<Longrightarrow>
     create_metadata_record u s =
       (Inl (RuntimeError ''Database is not initialised. Call connect_to_mongodb() first.''),
        fetched u r s)"
  by (simp add: create_metadata_record_fetched upsert_metadata_no_database)

lemma create_metadata_record_offline:
  "http_client s \<noteq> None \<Longrightarrow> remote s u = Responded r \<Longrightarrow> is_success r \<Longrightarrow>
   database s \<Longrightarrow> \<not> db_online s \<Longrightarrow>
     create_metadata_record u s = (Inl PyMongoError, effect (DbUpdate u) (fetched u r s))"
  by (simp add: create_metadata_record_fetched upsert_metadata_offline) (simp add: candidate_def)

text \<open>The six ways a collection ends.\<close>

lemma create_metadata_record_cases:
  obtains
    (no_client) "http_client s = None"
  | (request_failed) msg where "http_client s \<noteq> None" "remote s u = RequestFailed msg"
  | (bad_status) r where "http_client s \<noteq> None" "remote s u = Responded r" "\<not> is_success r"
  | (no_database) r where "http_client s \<noteq> None" "remote s u = Responded r" "is_success r"
      "\<not> database s"
  | (offline) r where "http_client s \<noteq> None" "remote s u = Responded r" "is_success r"
      "database s" "\<not> db_online s"
  | (success) r where "http_client s \<noteq> None" "remote s u = Responded r" "is_success r"
      "database s" "db_online s"
  by (cases "http_client s"; cases "remote s u"; cases "database s"; cases "db_online s") blast+

lemma create_metadata_record_Inr:
  assumes "create_metadata_record u s = (Inr doc, s')"
  obtains r where "http_client s \<noteq> None" "remote s u = Responded r" "is_success r"
      "database s" "db_online s" "doc = candidate u r (clock s)"
      "s' = logger_info ''Metadata record upserted for %s'' [AStr u]
          ((effect (DbUpdate u) (fetched u r s))\<lparr>metadata :=
              update_one [(''url'', BStr u)] (update_data_of (candidate u r (clock s)))
                [''created_at'' \<mapsto> BTime (clock s)] (metadata s)\<rparr>)"
proof (cases rule: create_metadata_record_cases [where s=s and u=u])
  case no_client
  with assms show ?thesis by (simp add: create_metadata_record_no_client)
next
  case (request_failed msg)
  with assms show ?thesis by (simp add: create_metadata_record_request_failed)
next
  case (bad_status r)
  with assms show ?thesis by (simp add: create_metadata_record_bad_status)
next
  case (no_database r)
  with assms show ?thesis by (simp add: create_metadata_record_no_database)
next
  case (offline r)
  with assms show ?thesis by (simp add: create_metadata_record_offline)
next
  case (success r)
  with assms that show ?thesis by (auto simp: create_metadata_record_success)
qed

lemma create_metadata_record_Inl:
  assumes "create_metadata_record u s = (Inl e, s')"
  shows "metadata s' = metadata s \<and> pending_urls s' = pending_urls s \<and> tasks s' = tasks s"
proof (cases rule: create_metadata_record_cases [where s=s and u=u])
  case no_client
  with assms show ?thesis by (auto simp: create_metadata_record_no_client state_ops)
next
  case (request_failed msg)
  with assms show ?thesis by (auto simp: create_metadata_record_request_failed state_ops)
next
  case (bad_status r)
  with assms show ?thesis by (auto simp: create_metadata_record_bad_status state_ops)
next
  case (no_database r)
  with assms show ?thesis by (auto simp: create_metadata_record_no_database)
next
  case (offline r)
  with assms show ?thesis by (auto simp: create_metadata_record_offline state_ops)
next
  case (success r)
  with assms show ?thesis by (simp add: create_metadata_record_success)
qed

subsection \<open>The store\<close>

lemma matches_url [simp]: "matches [(''url'', BStr u)] d = (d ''url'' = Some (BStr u))"
  by (simp add: matches_def)

lemma update_data_of_fields [simp]:
  "update_data_of doc ''url'' = Some (BStr (url doc))"
  "update_data_of doc ''headers'' = Some (BDict (headers doc))"
  "update_data_of doc ''cookies'' = Some (BDict (cookies doc))"
  "update_data_of doc ''page_source'' = Some (BStr (page_source doc))"
  "update_data_of doc ''created_at'' = None"
  "update_data_of doc ''updated_at'' = Some (BTime (updated_at doc))"
  "update_data_of doc ''_id'' = None"
  by (simp_all add: update_data_of_def to_mongo_dict_def)

lemma find_update_hit:
  assumes "find (matches flt) ds = Some d" and "matches flt (d ++ st)"
  shows "find (matches flt) (update_or_insert flt st soi oid ds) = Some (d ++ st)"
  using assms by (induction ds) (auto split: if_splits)

lemma find_update_miss:
  assumes "find (matches flt) ds = None"
      and "matches flt ((map_of flt ++ st ++ soi)(''_id'' \<mapsto> oid))"
  shows "find (matches flt) (update_or_insert flt st soi oid ds)
           = Some ((map_of flt ++ st ++ soi)(''_id'' \<mapsto> oid))"
  using assms by (induction ds) (auto split: if_splits)

lemma find_update_other:
  assumes "v \<noteq> u" and "st ''url'' = Some (BStr u)" and "soi ''url'' = None"
  shows "find (matches [(''url'', BStr v)]) (update_or_insert [(''url'', BStr u)] st soi oid ds)
           = find (matches [(''url'', BStr v)]) ds"
  using assms by (induction ds) (auto split: if_splits simp: map_add_def)

lemma upserted_present:
  assumes "find_one [(''url'', BStr (url doc))] ds = Some d"
  shows "find_one [(''url'', BStr (url doc))] (upserted doc now ds) = Some (d ++ update_data_of doc)"
  using assms unfolding find_one_def upserted_def update_one_def
  by (intro find_update_hit) (simp_all add: map_add_def)

lemma upserted_absent:
  assumes "find_one [(''url'', BStr (url doc))] ds = None"
  shows "find_one [(''url'', BStr (url doc))] (upserted doc now ds)
           = Some ((to_mongo_dict doc)(''created_at'' \<mapsto> BTime now, ''_id'' \<mapsto> BId (length ds)))"
proof -
  have eq: "(map_of [(''url'', BStr (url doc))] ++ update_data_of doc ++ [''created_at'' \<mapsto> BTime now])
              = (to_mongo_dict doc)(''created_at'' \<mapsto> BTime now)"
    by (rule ext) (simp add: map_add_def update_data_of_def to_mongo_dict_def)
  have "find (matches [(''url'', BStr (url doc))])
          (update_or_insert [(''url'', BStr (url doc))] (update_data_of doc)
             [''created_at'' \<mapsto> BTime now] (BId (length ds)) ds)
        = Some ((map_of [(''url'', BStr (url doc))] ++ update_data_of doc
                  ++ [''created_at'' \<mapsto> BTime now])(''_id'' \<mapsto> BId (length ds)))"
    using assms unfolding find_one_def
    by (intro find_update_miss) (simp_all add: map_add_def)
  then show ?thesis
    unfolding find_one_def upserted_def update_one_def eq .
qed

lemma upserted_other:
  assumes "v \<noteq> url doc"
  shows "find_one [(''url'', BStr v)] (upserted doc now ds) = find_one [(''url'', BStr v)] ds"
  using assms unfolding find_one_def upserted_def update_one_def
  by (intro find_update_other) simp_all

lemma upserted_keeps_created_at:
  assumes "find_one [(''url'', BStr u)] ds = Some d"
  shows "\<exists>d'. find_one [(''url'', BStr u)] (upserted doc now ds) = Some d'
              \<and> d' ''created_at'' = d ''created_at''"
proof (cases "u = url doc")
  case True
  with assms have "find_one [(''url'', BStr u)] (upserted doc now ds) = Some (d ++ update_data_of doc)"
    by (simp add: upserted_present)
  then show ?thesis by (simp add: map_add_def)
next
  case False
  with assms show ?thesis by (simp add: upserted_other)
qed

lemma create_metadata_record_writes:
  "metadata (snd (create_metadata_record u s)) = metadata s
   \<or> (\<exists>doc now. metadata (snd (create_metadata_record u s)) = upserted doc now (metadata s))"
proof (cases rule: create_metadata_record_cases [where s=s and u=u])
  case no_client
  then show ?thesis by (simp add: create_metadata_record_no_client state_ops)
next
  case (request_failed msg)
  then show ?thesis by (simp add: create_metadata_record_request_failed state_ops)
next
  case (bad_status r)
  then show ?thesis by (simp add: create_metadata_record_bad_status state_ops)
next
  case (no_database r)
  then show ?thesis by (simp add: create_metadata_record_no_database)
next
  case (offline r)
  then show ?thesis by (simp add: create_metadata_record_offline state_ops)
next
  case (success r)
  then have "metadata (snd (create_metadata_record u s))
               = upserted (candidate u r (clock s)) (clock s) (metadata s)"
    by (simp add: create_metadata_record_success state_ops upserted_def candidate_def)
  then show ?thesis by blast
qed

lemma time_field_metadata: "metadata (snd (time_field d k s)) = metadata s"
  by (simp add: time_field_def state_ops split: option.splits bson.splits)

lemma MetadataDocument_of_metadata: "metadata (snd (MetadataDocument_of d s)) = metadata s"
proof -
  obtain c s1 where a: "time_field d ''created_at'' s = (c, s1)" by (cases "time_field d ''created_at'' s")
  obtain m s2 where b: "time_field d ''updated_at'' s1 = (m, s2)" by (cases "time_field d ''updated_at'' s1")
  have "metadata s1 = metadata s" using time_field_metadata [of d "''created_at''" s] a by simp
  moreover have "metadata s2 = metadata s1" using time_field_metadata [of d "''updated_at''" s1] b by simp
  moreover have "snd (MetadataDocument_of d s) = s2"
    by (simp add: MetadataDocument_of_def a b)
  ultimately show ?thesis by simp
qed

lemma find_metadata_by_url_metadata: "metadata (snd (find_metadata_by_url u s)) = metadata s"
proof (cases "database s \<and> db_online s")
  case False
  then show ?thesis
    by (auto simp: find_metadata_by_url_def get_database_def Let_def state_ops)
next
  case True
  show ?thesis
  proof (cases "find_one [(''url'', BStr u)] (metadata s)")
    case None
    with True show ?thesis
      by (simp add: find_metadata_by_url_def get_database_def Let_def state_ops)
  next
    case (Some d)
    obtain r s2 where p: "MetadataDocument_of (d(''_id'' := None)) (effect (DbFind u) s) = (r, s2)"
      by (cases "MetadataDocument_of (d(''_id'' := None)) (effect (DbFind u) s)")
    have "metadata s2 = metadata s"
      using MetadataDocument_of_metadata [of "d(''_id'' := None)" "effect (DbFind u) s"] p
      by (simp add: state_ops)
    moreover have "snd (find_metadata_by_url u s) = s2"
      using True Some p
      by (cases r) (simp_all add: find_metadata_by_url_def get_database_def Let_def state_ops)
    ultimately show ?thesis by simp
  qed
qed

lemma post_metadata_metadata:
  "metadata (snd (post_metadata u s)) = metadata (snd (create_metadata_record u s))"
proof -
  obtain r s1 where p: "create_metadata_record u s = (r, s1)"
    by (cases "create_metadata_record u s")
  show ?thesis
  proof (cases r)
    case (Inl e)
    with p show ?thesis by (cases e) (simp_all add: post_metadata_def state_ops)
  next
    case (Inr doc)
    with p show ?thesis by (simp add: post_metadata_def)
  qed
qed

lemma background_collect_metadata:
  "metadata (snd (background_collect u s))
     = metadata (snd (create_metadata_record u
         (logger_info ''Background collection started for %s'' [AStr u] s)))"
proof -
  obtain r s1 where p: "create_metadata_record u
         (logger_info ''Background collection started for %s'' [AStr u] s) = (r, s1)"
    by (cases "create_metadata_record u
         (logger_info ''Background collection started for %s'' [AStr u] s)")
  then show ?thesis
    by (cases r) (simp_all add: background_collect_def Let_def state_ops)
qed

lemma schedule_background_collection_metadata:
  "metadata (snd (schedule_background_collection u s)) = metadata s"
  by (simp add: schedule_background_collection_def state_ops)

lemma get_metadata_metadata: "metadata (snd (get_metadata u s)) = metadata s"
proof (cases "prefix ''http://'' u \<or> prefix ''https://'' u")
  case False
  then show ?thesis by (simp add: get_metadata_def)
next
  case True
  obtain r s1 where p: "find_metadata_by_url u s = (r, s1)"
    by (cases "find_metadata_by_url u s")
  then have m: "metadata s1 = metadata s"
    using find_metadata_by_url_metadata [of u s] by simp
  show ?thesis
  proof (cases r)
    case (Inl e)
    with True p m show ?thesis by (simp add: get_metadata_def get_metadata_record_def)
  next
    case (Inr found)
    show ?thesis
    proof (cases found)
      case None
      with True p m Inr show ?thesis
        using schedule_background_collection_metadata [of u s1]
        by (simp add: get_metadata_def get_metadata_record_def case_prod_beta)
    next
      case (Some found_doc)
      with True p m Inr show ?thesis by (simp add: get_metadata_def get_metadata_record_def)
    qed
  qed
qed

lemma step_writes:
  "metadata (step e s) = metadata s \<or> (\<exists>doc now. metadata (step e s) = upserted doc now (metadata s))"
proof (cases e)
  case (PostMetadata u)
  then show ?thesis
    using create_metadata_record_writes [of u s] by (simp add: post_metadata_metadata)
next
  case (GetMetadata u)
  then show ?thesis by (simp add: get_metadata_metadata)
next
  case (RunTask u)
  show ?thesis
  proof (cases "u \<in> set (tasks s)")
    case True
    have "metadata (run_task u s) = metadata (snd (background_collect u s))"
      using True by (simp add: run_task_def Let_def)
    then show ?thesis
      using RunTask
        create_metadata_record_writes
          [of u "logger_info ''Background collection started for %s'' [AStr u] s"]
      by (simp add: background_collect_metadata) (simp add: state_ops)
  next
    case False
    with RunTask show ?thesis by (simp add: run_task_def)
  qed
qed (simp_all add: create_http_client_def close_http_client_def state_ops split: option.splits)

lemma step_keeps_created_at:
  assumes "stored u s = Some d"
  shows "\<exists>d'. stored u (step e s) = Some d' \<and> d' ''created_at'' = d ''created_at''"
  using step_writes [of e s] assms upserted_keeps_created_at [of u "metadata s" d]
  by (auto simp: stored_def)

lemma run_keeps_created_at:
  assumes "stored u s = Some d"
  shows "\<exists>d'. stored u (run es s) = Some d' \<and> d' ''created_at'' = d ''created_at''"
  using assms
proof (induction es arbitrary: s d)
  case Nil
  then show ?case by (simp add: run_def)
next
  case (Cons e es)
  from step_keeps_created_at [OF Cons.prems, of e]
  obtain d1 where d1: "stored u (step e s) = Some d1" "d1 ''created_at'' = d ''created_at''"
    by blast
  from Cons.IH [OF d1(1)] d1(2) show ?case by (simp add: run_def)
qed

lemma serving_fields [simp]:
  "http_client (serving a t)
     = Some \<lparr>timeout = 15, follow_redirects = True, max_connections = 50,
             max_keepalive_connections = 10\<rparr>"
  "database (serving a t)" "db_online (serving a t)" "metadata (serving a t) = []"
  "clock (serving a t) = t" "remote (serving a t) = (\<lambda>u. a)" "pending_urls (serving a t) = {}"
  "tasks (serving a t) = []" "trace (serving a t) = []" "log_records (serving a t) = []"
  by (simp_all add: serving_def initial_def create_http_client_def state_ops)

lemma is_success_pages [simp]: "is_success page_v1" "is_success page_v2" "\<not> is_success not_found"
  by (simp_all add: is_success_def page_v1_def page_v2_def not_found_def)

lemma create_metadata_record_Inr_fields:
  assumes "create_metadata_record u s = (Inr doc, s')"
  obtains r where "remote s u = Responded r" "is_success r"
      "database s" "db_online s" "doc = candidate u r (clock s)"
      "metadata s' = upserted doc (clock s) (metadata s)"
      "trace s' = trace s @ [NetGet u, ClockRead, DbUpdate u]"
      "pending_urls s' = pending_urls s" "tasks s' = tasks s" "clock s' = clock s"
proof -
  from assms obtain r where f: "http_client s \<noteq> None" "remote s u = Responded r" "is_success r"
      "database s" "db_online s" "doc = candidate u r (clock s)"
      "s' = logger_info ''Metadata record upserted for %s'' [AStr u]
          ((effect (DbUpdate u) (fetched u r s))\<lparr>metadata :=
              update_one [(''url'', BStr u)] (update_data_of (candidate u r (clock s)))
                [''created_at'' \<mapsto> BTime (clock s)] (metadata s)\<rparr>)"
    by (rule create_metadata_record_Inr)
  have "url doc = u" using f(6) by (simp add: candidate_def)
  then have "metadata s' = upserted doc (clock s) (metadata s)"
    using f(6,7) by (simp add: upserted_def state_ops)
  moreover have "trace s' = trace s @ [NetGet u, ClockRead, DbUpdate u]"
    "pending_urls s' = pending_urls s" "tasks s' = tasks s" "clock s' = clock s"
    using f(7) by (simp_all add: state_ops)
  ultimately show ?thesis using f(2-6) that by blast
qed

lemma candidate_fields [simp]:
  "url (candidate u r t) = u" "headers (candidate u r t) = resp_headers r"
  "cookies (candidate u r t) = resp_cookies r" "page_source (candidate u r t) = body_text r"
  "created_at (candidate u r t) = t" "updated_at (candidate u r t) = t"
  by (simp_all add: candidate_def)

lemma first_visit_result:
  "create_metadata_record example_url (serving (Responded page_v1) 100)
     = (Inr (candidate example_url page_v1 100), first_visit)"
  unfolding first_visit_def
  by (simp add: create_metadata_record_success [where r = page_v1])

subsection \<open>Stability of \<open>created_at\<close>\<close>

text \<open>
  Claim C2.  Once a collect-and-store for a URL has succeeded, the \<open>created_at\<close> of the
  stored document never changes again: not by a later successful collect-and-store for the
  same URL, and not by anything else the service does.  The \<open>$set\<close> part of the upsert has
  no \<open>created_at\<close>; the field is written only when the document is inserted, where it is
  the timestamp of that collection.
\<close>

theorem created_at_stable:
  assumes "create_metadata_record u s = (Inr doc, s1)"
  shows "\<exists>d1. stored u s1 = Some d1
          \<and> update_data_of doc ''created_at'' = None
          \<and> (case stored u s of
                None \<Rightarrow> d1 ''created_at'' = Some (BTime (clock s))
              | Some d0 \<Rightarrow> d1 ''created_at'' = d0 ''created_at'')
          \<and> (\<forall>es. \<exists>d2. stored u (run es s1) = Some d2 \<and> d2 ''created_at'' = d1 ''created_at'')
          \<and> (\<forall>es doc2 s2. create_metadata_record u (run es s1) = (Inr doc2, s2) \<longrightarrow>
                (\<exists>d2. stored u s2 = Some d2 \<and> d2 ''created_at'' = d1 ''created_at''))"
proof -
  from assms obtain r where doc: "doc = candidate u r (clock s)"
    and m: "metadata s1 = upserted doc (clock s) (metadata s)"
    by (rule create_metadata_record_Inr_fields)
  have u: "url doc = u" using doc by simp
  obtain d1 where d1: "stored u s1 = Some d1"
    and first: "case stored u s of
                  None \<Rightarrow> d1 ''created_at'' = Some (BTime (clock s))
                | Some d0 \<Rightarrow> d1 ''created_at'' = d0 ''created_at''"
  proof (cases "stored u s")
    case None
    then have "stored u s1
        = Some ((to_mongo_dict doc)(''created_at'' \<mapsto> BTime (clock s),
             ''_id'' \<mapsto> BId (length (metadata s))))"
      using upserted_absent [of doc "metadata s" "clock s"] u m by (simp add: stored_def)
    with None that show ?thesis by simp
  next
    case (Some d0)
    then have "stored u s1 = Some (d0 ++ update_data_of doc)"
      using upserted_present [of doc "metadata s" d0 "clock s"] u m by (simp add: stored_def)
    with Some that show ?thesis by (simp add: map_add_def)
  qed
  have later: "\<exists>d2. stored u (run es s1) = Some d2 \<and> d2 ''created_at'' = d1 ''created_at''" for es
    using run_keeps_created_at [OF d1] .
  have again: "\<exists>d2. stored u s2 = Some d2 \<and> d2 ''created_at'' = d1 ''created_at''"
    if "create_metadata_record u (run es s1) = (Inr doc2, s2)" for es doc2 s2
  proof -
    from later [of es] obtain d where d: "stored u (run es s1) = Some d"
      "d ''created_at'' = d1 ''created_at''" by blast
    from that obtain r2 where "doc2 = candidate u r2 (clock (run es s1))"
      and "metadata s2 = upserted doc2 (clock (run es s1)) (metadata (run es s1))"
      by (rule create_metadata_record_Inr_fields)
    then show ?thesis
      using upserted_keeps_created_at [of u "metadata (run es s1)" d doc2 "clock (run es s1)"] d
      by (simp add: stored_def)
  qed
  from d1 first later again show ?thesis by auto
qed




theorem created_at_stable_witness:
  "create_metadata_record example_url (serving (Responded page_v1) 100)
     = (Inr (candidate example_url page_v1 100), first_visit)
   \<and> map_option (\<lambda>d. d ''created_at'')
        (stored example_url
           (run [SetClock 200, SetRemote (\<lambda>u. Responded page_v2), PostMetadata example_url]
              first_visit))
       = Some (Some (BTime 100))"
proof -
  have h: "create_metadata_record example_url (serving (Responded page_v1) 100)
             = (Inr (candidate example_url page_v1 100), first_visit)"
    by (rule first_visit_result)
  have e: "stored example_url (serving (Responded page_v1) 100) = None"
    by (simp add: stored_def find_one_def)
  from created_at_stable [OF h] e show ?thesis
    using h by (auto simp: stored_def)
qed

subsection \<open>Scheduling a background collection\<close>

text \<open>
  Claim C1.  A call of \<open>schedule_background_collection\<close> for a URL returns \<open>True\<close>
  exactly when the URL was not in the in-flight set at the call.  On \<open>True\<close> the URL is
  put into the set and one new task, for that URL, is created; on \<open>False\<close> the set and
  the task list stay as they were.  Neither case touches the store or the outside world.
\<close>

theorem schedule_background_collection_dedup:
  assumes "schedule_background_collection u s = (b, s')"
  shows "(b \<longleftrightarrow> u \<notin> pending_urls s)
       \<and> (b \<longrightarrow> pending_urls s' = insert u (pending_urls s) \<and> tasks s' = tasks s @ [u])
       \<and> (\<not> b \<longrightarrow> pending_urls s' = pending_urls s \<and> tasks s' = tasks s)
       \<and> metadata s' = metadata s \<and> trace s' = trace s"
proof (cases "u \<in> pending_urls s")
  case True
  with assms show ?thesis by (auto simp: schedule_background_collection_def state_ops)
next
  case False
  with assms show ?thesis by (auto simp: schedule_background_collection_def state_ops)
qed

theorem schedule_background_collection_dedup_witness:
  "schedule_background_collection example_url (serving (Responded page_v1) 0)
     = (True, snd (schedule_background_collection example_url (serving (Responded page_v1) 0)))
   \<and> pending_urls (snd (schedule_background_collection example_url (serving (Responded page_v1) 0)))
       = {example_url}
   \<and> tasks (snd (schedule_background_collection example_url (serving (Responded page_v1) 0)))
       = [example_url]"
proof -
  have h: "schedule_background_collection example_url (serving (Responded page_v1) 0)
     = (True, snd (schedule_background_collection example_url (serving (Responded page_v1) 0)))"
    by (simp add: schedule_background_collection_def)
  from schedule_background_collection_dedup [OF h] h show ?thesis by simp
qed

subsection \<open>The end of a background task\<close>

lemma create_metadata_record_pending:
  "pending_urls (snd (create_metadata_record u s)) = pending_urls s"
proof (cases "create_metadata_record u s")
  case (Pair r s')
  show ?thesis
  proof (cases r)
    case (Inl e)
    with Pair show ?thesis using create_metadata_record_Inl [of u s e s'] by simp
  next
    case (Inr doc)
    with Pair show ?thesis by (auto elim: create_metadata_record_Inr_fields)
  qed
qed

lemma background_collect_failure:
  "create_metadata_record u (logger_info ''Background collection started for %s'' [AStr u] s)
     = (Inl e, s2) \<Longrightarrow>
   background_collect u s
     = (Inr (),
        (logger_exception ''Background collection failed for %s'' [AStr u] e s2)
          \<lparr>pending_urls := pending_urls s2 - {u}\<rparr>)"
  by (simp add: background_collect_def Let_def state_ops)

lemma background_collect_success:
  "create_metadata_record u (logger_info ''Background collection started for %s'' [AStr u] s)
     = (Inr doc, s2) \<Longrightarrow>
   background_collect u s
     = (Inr (),
        (logger_info ''Background collection completed for %s'' [AStr u] s2)
          \<lparr>pending_urls := pending_urls s2 - {u}\<rparr>)"
  by (simp add: background_collect_def Let_def state_ops)


text \<open>
  Claim C3.  When \<open>_background_collect\<close> for a URL finishes, whether its collection
  succeeded or raised, the URL is no longer in the in-flight set, the coroutine returns
  normally (a raised exception is logged with its traceback by \<open>logger.exception\<close> and
  goes no further), and a scheduling call for the URL made then returns \<open>True\<close>.
\<close>

theorem background_collect_reaps:
  assumes "background_collect u s = (r, s')"
  shows "r = Inr ()
       \<and> pending_urls s' = pending_urls s - {u}
       \<and> fst (schedule_background_collection u s') = True
       \<and> (case fst (create_metadata_record u
                     (logger_info ''Background collection started for %s'' [AStr u] s)) of
             Inl e \<Rightarrow> last (log_records s')
                        = LogRecord ERROR ''Background collection failed for %s'' [AStr u] (Some e)
           | Inr doc \<Rightarrow> last (log_records s')
                        = LogRecord INFO ''Background collection completed for %s'' [AStr u] None)"
proof -
  let ?s1 = "logger_info ''Background collection started for %s'' [AStr u] s"
  obtain res s2 where c: "create_metadata_record u ?s1 = (res, s2)"
    by (cases "create_metadata_record u ?s1")
  have p: "pending_urls s2 = pending_urls s"
    using create_metadata_record_pending [of u ?s1] c by (simp add: state_ops)
  show ?thesis
  proof (cases res)
    case (Inl e)
    with c have "background_collect u s
        = (Inr (), (logger_exception ''Background collection failed for %s'' [AStr u] e s2)
                     \<lparr>pending_urls := pending_urls s2 - {u}\<rparr>)"
      by (simp add: background_collect_failure)
    with assms have r: "r = Inr ()"
      and s': "s' = (logger_exception ''Background collection failed for %s'' [AStr u] e s2)
                      \<lparr>pending_urls := pending_urls s2 - {u}\<rparr>"
      by simp_all
    have "pending_urls s' = pending_urls s - {u}" using s' p by simp
    moreover have "fst (schedule_background_collection u s') = True"
      using s' by (simp add: schedule_background_collection_def)
    moreover have "last (log_records s')
        = LogRecord ERROR ''Background collection failed for %s'' [AStr u] (Some e)"
      using s' by (simp add: state_ops)
    ultimately show ?thesis using r c Inl by simp
  next
    case (Inr doc)
    with c have "background_collect u s
        = (Inr (), (logger_info ''Background collection completed for %s'' [AStr u] s2)
                     \<lparr>pending_urls := pending_urls s2 - {u}\<rparr>)"
      by (simp add: background_collect_success)
    with assms have r: "r = Inr ()"
      and s': "s' = (logger_info ''Background collection completed for %s'' [AStr u] s2)
                      \<lparr>pending_urls := pending_urls s2 - {u}\<rparr>"
      by simp_all
    have "pending_urls s' = pending_urls s - {u}" using s' p by simp
    moreover have "fst (schedule_background_collection u s') = True"
      using s' by (simp add: schedule_background_collection_def)
    moreover have "last (log_records s')
        = LogRecord INFO ''Background collection completed for %s'' [AStr u] None"
      using s' by (simp add: state_ops)
    ultimately show ?thesis using r c Inr by simp
  qed
qed

text \<open>A task for the example URL that fails: the HTTP client was never created.\<close>

theorem background_collect_reaps_witness:
  "background_collect example_url ((initial (\<lambda>u. Responded page_v1) 0 [])\<lparr>pending_urls := {example_url}\<rparr>)
     = (Inr (), snd (background_collect example_url
                  ((initial (\<lambda>u. Responded page_v1) 0 [])\<lparr>pending_urls := {example_url}\<rparr>)))
   \<and> pending_urls (snd (background_collect example_url
                  ((initial (\<lambda>u. Responded page_v1) 0 [])\<lparr>pending_urls := {example_url}\<rparr>))) = {}
   \<and> fst (schedule_background_collection example_url
           (snd (background_collect example_url
                  ((initial (\<lambda>u. Responded page_v1) 0 [])\<lparr>pending_urls := {example_url}\<rparr>))))
   \<and> last (log_records (snd (background_collect example_url
                  ((initial (\<lambda>u. Responded page_v1) 0 [])\<lparr>pending_urls := {example_url}\<rparr>))))
       = LogRecord ERROR ''Background collection failed for %s'' [AStr example_url]
           (Some (RuntimeError ''HTTP client is not initialised. Call create_http_client() first.''))"
proof -
  let ?s = "(initial (\<lambda>u. Responded page_v1) 0 [])\<lparr>pending_urls := {example_url}\<rparr>"
  have h: "background_collect example_url ?s
             = (fst (background_collect example_url ?s), snd (background_collect example_url ?s))"
    by simp
  have p: "pending_urls ?s = {example_url}" by simp
  have "http_client (logger_info ''Background collection started for %s'' [AStr example_url] ?s) = None"
    by (simp add: initial_def state_ops)
  then have f: "fst (create_metadata_record example_url
             (logger_info ''Background collection started for %s'' [AStr example_url] ?s))
          = Inl (RuntimeError ''HTTP client is not initialised. Call create_http_client() first.'')"
    by (simp add: create_metadata_record_no_client)
  from background_collect_reaps [OF h] p f show ?thesis
    by (simp add: prod_eq_iff)
qed

subsection \<open>Fields of the state after a log record or an effect\<close>

lemma logger_info_fields [simp]:
  "http_client (logger_info f a s) = http_client s" "database (logger_info f a s) = database s"
  "pending_urls (logger_info f a s) = pending_urls s" "remote (logger_info f a s) = remote s"
  "clock (logger_info f a s) = clock s" "metadata (logger_info f a s) = metadata s"
  "db_online (logger_info f a s) = db_online s" "tasks (logger_info f a s) = tasks s"
  "trace (logger_info f a s) = trace s"
  by (simp_all add: logger_info_def)

lemma effect_fields [simp]:
  "http_client (effect ev s) = http_client s" "database (effect ev s) = database s"
  "pending_urls (effect ev s) = pending_urls s" "remote (effect ev s) = remote s"
  "clock (effect ev s) = clock s" "metadata (effect ev s) = metadata s"
  "db_online (effect ev s) = db_online s" "tasks (effect ev s) = tasks s"
  "log_records (effect ev s) = log_records s" "trace (effect ev s) = trace s @ [ev]"
  by (simp_all add: effect_def)

subsection \<open>A failed fetch\<close>

text \<open>
  Claim C7.  With the HTTP client in place, a collect-and-store whose fetch fails raises
  the failure to its caller as a typed exception, \<open>RequestError\<close> for a transport failure
  and \<open>HTTPStatusError\<close> with the status for a response that is not a success, after the
  one GET and nothing else: the collection is left as it was, so a URL that had no document
  still has none.
\<close>

theorem fetch_failure_leaves_store:
  assumes "http_client s \<noteq> None"
      and "create_metadata_record u s = (res, s')"
  shows "(case remote s u of
            RequestFailed msg \<Rightarrow>
              res = Inl (RequestError msg) \<and> metadata s' = metadata s
              \<and> stored u s' = stored u s \<and> trace s' = trace s @ [NetGet u]
          | Responded r \<Rightarrow>
              \<not> is_success r \<longrightarrow>
                res = Inl (HTTPStatusError (status_code r)) \<and> metadata s' = metadata s
                \<and> stored u s' = stored u s \<and> trace s' = trace s @ [NetGet u])"
proof (cases "remote s u")
  case (RequestFailed msg)
  with assms show ?thesis
    by (auto simp: create_metadata_record_request_failed stored_def)
next
  case (Responded r)
  with assms show ?thesis
    by (cases "is_success r") (auto simp: create_metadata_record_bad_status stored_def)
qed

theorem fetch_failure_leaves_store_witness:
  "fst (create_metadata_record example_url (serving (RequestFailed ''timed out'') 0))
     = Inl (RequestError ''timed out'')
   \<and> stored example_url (snd (create_metadata_record example_url (serving (RequestFailed ''timed out'') 0)))
       = None
   \<and> fst (create_metadata_record example_url (serving (Responded not_found) 0))
       = Inl (HTTPStatusError 404)
   \<and> metadata (snd (create_metadata_record example_url (serving (Responded not_found) 0))) = []"
proof -
  let ?a = "serving (RequestFailed ''timed out'') 0" and ?b = "serving (Responded not_found) 0"
  have ha: "http_client ?a \<noteq> None" and hb: "http_client ?b \<noteq> None" by simp_all
  have pa: "create_metadata_record example_url ?a
     = (fst (create_metadata_record example_url ?a), snd (create_metadata_record example_url ?a))"
   and pb: "create_metadata_record example_url ?b
     = (fst (create_metadata_record example_url ?b), snd (create_metadata_record example_url ?b))"
    by simp_all
  have sc: "status_code not_found = 404" by (simp add: not_found_def)
  have "stored example_url ?a = None" by (simp add: stored_def find_one_def)
  with fetch_failure_leaves_store [OF ha pa] fetch_failure_leaves_store [OF hb pb]
  show ?thesis by (simp add: sc)
qed

subsection \<open>Reading a stored document\<close>

lemma MetadataDocument_of_typed:
  assumes "d ''url'' = Some (BStr u)" "d ''headers'' = Some (BDict hs)"
      "d ''cookies'' = Some (BDict cs)" "d ''page_source'' = Some (BStr src)"
      "d ''created_at'' = Some (BTime ca)" "d ''updated_at'' = Some (BTime ua)"
  shows "MetadataDocument_of d s
           = (Inr \<lparr>url = u, headers = hs, cookies = cs, page_source = src,
                   created_at = ca, updated_at = ua\<rparr>, s)"
  using assms
  by (simp add: MetadataDocument_of_def time_field_def str_field_def dict_field_def bind_def)

lemma find_metadata_by_url_hit:
  assumes "database s" "db_online s" "stored u s = Some d"
      "d ''url'' = Some (BStr u')" "d ''headers'' = Some (BDict hs)"
      "d ''cookies'' = Some (BDict cs)" "d ''page_source'' = Some (BStr src)"
      "d ''created_at'' = Some (BTime ca)" "d ''updated_at'' = Some (BTime ua)"
  shows "find_metadata_by_url u s
           = (Inr (Some \<lparr>url = u', headers = hs, cookies = cs, page_source = src,
                         created_at = ca, updated_at = ua\<rparr>), effect (DbFind u) s)"
proof -
  have "MetadataDocument_of (d(''_id'' := None)) (effect (DbFind u) s)
          = (Inr \<lparr>url = u', headers = hs, cookies = cs, page_source = src,
                  created_at = ca, updated_at = ua\<rparr>, effect (DbFind u) s)"
    using assms(4-9) by (intro MetadataDocument_of_typed) simp_all
  with assms(1-3) show ?thesis
    by (simp add: find_metadata_by_url_def get_database_def Let_def stored_def)
qed

lemma find_metadata_by_url_miss:
  assumes "database s" "db_online s" "stored u s = None"
  shows "find_metadata_by_url u s = (Inr None, effect (DbFind u) s)"
  using assms by (simp add: find_metadata_by_url_def get_database_def Let_def stored_def)

subsection \<open>A first collection\<close>

text \<open>
  Claim C5.  A successful \<open>create_metadata_record\<close> for a URL that has no document sends
  one GET, reads the clock once after it, and sends one upsert.  The document the
  collection then holds for the URL has the headers, cookies and page source of the
  response, and \<open>created_at\<close> and \<open>updated_at\<close> both equal to that one clock reading; it
  is the record the function returns, and a lookup reads it back.
\<close>

theorem create_metadata_record_inserts:
  assumes "stored u s = None"
      and "create_metadata_record u s = (Inr doc, s')"
  shows "\<exists>r. remote s u = Responded r \<and> is_success r
          \<and> trace s' = trace s @ [NetGet u, ClockRead, DbUpdate u]
          \<and> doc = \<lparr>url = u, headers = resp_headers r, cookies = resp_cookies r,
                    page_source = body_text r, created_at = clock s, updated_at = clock s\<rparr>
          \<and> stored u s'
              = Some [''url'' \<mapsto> BStr u,
                      ''headers'' \<mapsto> BDict (resp_headers r),
                      ''cookies'' \<mapsto> BDict (resp_cookies r),
                      ''page_source'' \<mapsto> BStr (body_text r),
                      ''created_at'' \<mapsto> BTime (clock s),
                      ''updated_at'' \<mapsto> BTime (clock s),
                      ''_id'' \<mapsto> BId (length (metadata s))]
          \<and> fst (find_metadata_by_url u s') = Inr (Some doc)"
proof -
  from assms(2) obtain r where r: "remote s u = Responded r" "is_success r"
    and db: "database s" "db_online s"
    and doc: "doc = candidate u r (clock s)"
    and fr: "s' = logger_info ''Metadata record upserted for %s'' [AStr u]
          ((effect (DbUpdate u) (fetched u r s))\<lparr>metadata :=
              update_one [(''url'', BStr u)] (update_data_of (candidate u r (clock s)))
                [''created_at'' \<mapsto> BTime (clock s)] (metadata s)\<rparr>)"
    by (rule create_metadata_record_Inr)
  have m: "metadata s' = upserted doc (clock s) (metadata s)"
    using fr doc by (simp add: upserted_def)
  have t: "trace s' = trace s @ [NetGet u, ClockRead, DbUpdate u]"
    using fr by simp
  have st: "stored u s'
      = Some ((to_mongo_dict doc)(''created_at'' \<mapsto> BTime (clock s),
           ''_id'' \<mapsto> BId (length (metadata s))))"
    using upserted_absent [of doc "metadata s" "clock s"] assms(1) m doc
    by (simp add: stored_def)
  have eq: "(to_mongo_dict doc)(''created_at'' \<mapsto> BTime (clock s),
           ''_id'' \<mapsto> BId (length (metadata s)))
      = [''url'' \<mapsto> BStr u,
         ''headers'' \<mapsto> BDict (resp_headers r),
         ''cookies'' \<mapsto> BDict (resp_cookies r),
         ''page_source'' \<mapsto> BStr (body_text r),
         ''created_at'' \<mapsto> BTime (clock s),
         ''updated_at'' \<mapsto> BTime (clock s),
         ''_id'' \<mapsto> BId (length (metadata s))]"
    by (rule ext) (simp add: to_mongo_dict_def doc)
  have dbs: "database s'" "db_online s'"
    using fr db by simp_all
  have "find_metadata_by_url u s'
          = (Inr (Some \<lparr>url = u, headers = resp_headers r, cookies = resp_cookies r,
                   page_source = body_text r, created_at = clock s, updated_at = clock s\<rparr>),
             effect (DbFind u) s')"
    by (rule find_metadata_by_url_hit [OF dbs st [unfolded eq]]) simp_all
  then have rd: "fst (find_metadata_by_url u s') = Inr (Some doc)"
    by (simp add: doc candidate_def)
  from r t st rd show ?thesis
    unfolding eq by (auto simp: doc candidate_def)
qed


theorem create_metadata_record_inserts_witness:
  "stored example_url (serving (Responded page_v1) 100) = None
   \<and> create_metadata_record example_url (serving (Responded page_v1) 100)
       = (Inr \<lparr>url = example_url, headers = [''content-type'' \<mapsto> ''text/html''],
               cookies = Map.empty, page_source = ''<html>v1</html>'',
               created_at = 100, updated_at = 100\<rparr>, first_visit)
   \<and> stored example_url first_visit
       = Some [''url'' \<mapsto> BStr example_url,
               ''headers'' \<mapsto> BDict [''content-type'' \<mapsto> ''text/html''],
               ''cookies'' \<mapsto> BDict Map.empty,
               ''page_source'' \<mapsto> BStr ''<html>v1</html>'',
               ''created_at'' \<mapsto> BTime 100,
               ''updated_at'' \<mapsto> BTime 100,
               ''_id'' \<mapsto> BId 0]
   \<and> trace first_visit = [NetGet example_url, ClockRead, DbUpdate example_url]"
proof -
  have e: "stored example_url (serving (Responded page_v1) 100) = None"
    by (simp add: stored_def find_one_def)
  have h: "create_metadata_record example_url (serving (Responded page_v1) 100)
             = (Inr (candidate example_url page_v1 100), first_visit)"
    by (rule first_visit_result)
  have p: "resp_headers page_v1 = [''content-type'' \<mapsto> ''text/html'']"
    "resp_cookies page_v1 = Map.empty" "body_text page_v1 = ''<html>v1</html>''"
    by (simp_all add: page_v1_def)
  from create_metadata_record_inserts [OF e h] e h show ?thesis
    by (auto simp: p candidate_def)
qed

subsection \<open>Collections without an HTTP client\<close>

lemma post_metadata_runtime_error:
  "create_metadata_record u s = (Inl (RuntimeError msg), s1) \<Longrightarrow>
     post_metadata u s = (Inl (RuntimeError msg), s1)"
  by (simp add: post_metadata_def)

text \<open>
  Claim C10.  While \<open>_http_client\<close> is \<open>None\<close>, as it is before \<open>create_http_client\<close>
  and after \<open>close_http_client\<close>, \<open>collect_metadata\<close> raises \<open>RuntimeError\<close> before any
  GET is sent or the database is touched.  So does every synchronous create, which the
  route passes on as it is (it is none of the two httpx exceptions the route turns into a
  502, and not a database error); a background collection ends with that \<open>RuntimeError\<close>
  logged.
\<close>

theorem no_client_runtime_error:
  assumes "http_client s = None"
  shows "fst (collect_metadata u s)
           = Inl (RuntimeError ''HTTP client is not initialised. Call create_http_client() first.'')
       \<and> trace (snd (collect_metadata u s)) = trace s
       \<and> fst (create_metadata_record u s)
           = Inl (RuntimeError ''HTTP client is not initialised. Call create_http_client() first.'')
       \<and> trace (snd (create_metadata_record u s)) = trace s
       \<and> metadata (snd (create_metadata_record u s)) = metadata s
       \<and> fst (post_metadata u s)
           = Inl (RuntimeError ''HTTP client is not initialised. Call create_http_client() first.'')
       \<and> trace (snd (background_collect u s)) = trace s
       \<and> metadata (snd (background_collect u s)) = metadata s
       \<and> last (log_records (snd (background_collect u s)))
           = LogRecord ERROR ''Background collection failed for %s'' [AStr u]
               (Some (RuntimeError ''HTTP client is not initialised. Call create_http_client() first.''))
       \<and> (\<forall>msg code. RuntimeError ''HTTP client is not initialised. Call create_http_client() first.''
             \<notin> {RequestError msg, HTTPStatusError code, PyMongoError})
       \<and> http_client (close_http_client s') = None
       \<and> http_client (initial web t docs) = None"
proof -
  let ?e = "RuntimeError ''HTTP client is not initialised. Call create_http_client() first.''"
  let ?s1 = "logger_info ''Background collection started for %s'' [AStr u] s"
  have c: "create_metadata_record u s
             = (Inl ?e, logger_info ''Collecting metadata for URL: %s'' [AStr u] s)"
    using assms by (rule create_metadata_record_no_client)
  have "http_client ?s1 = None" using assms by simp
  then have b: "create_metadata_record u ?s1
             = (Inl ?e, logger_info ''Collecting metadata for URL: %s'' [AStr u] ?s1)"
    by (rule create_metadata_record_no_client)
  have bg: "background_collect u s
      = (Inr (), (logger_exception ''Background collection failed for %s'' [AStr u] ?e
           (logger_info ''Collecting metadata for URL: %s'' [AStr u] ?s1))
             \<lparr>pending_urls := pending_urls (logger_info ''Collecting metadata for URL: %s'' [AStr u] ?s1) - {u}\<rparr>)"
    using b by (rule background_collect_failure)
  have "http_client (close_http_client s') = None"
    by (cases "http_client s'") (simp_all add: close_http_client_def)
  moreover have "http_client (initial web t docs) = None"
    by (simp add: initial_def)
  moreover have "fst (post_metadata u s) = Inl ?e"
    using post_metadata_runtime_error [OF c] by simp
  ultimately show ?thesis
    using assms c bg by (simp add: collect_metadata_no_client state_ops)
qed

theorem no_client_runtime_error_witness:
  "http_client (initial (\<lambda>u. Responded page_v1) 0 []) = None
   \<and> fst (create_metadata_record example_url (initial (\<lambda>u. Responded page_v1) 0 []))
       = Inl (RuntimeError ''HTTP client is not initialised. Call create_http_client() first.'')
   \<and> trace (snd (create_metadata_record example_url (initial (\<lambda>u. Responded page_v1) 0 []))) = []
   \<and> http_client (close_http_client (serving (Responded page_v1) 0)) = None
   \<and> fst (post_metadata example_url (close_http_client (serving (Responded page_v1) 0)))
       = Inl (RuntimeError ''HTTP client is not initialised. Call create_http_client() first.'')"
proof -
  have a: "http_client (initial (\<lambda>u. Responded page_v1) 0 []) = None"
    by (simp add: initial_def)
  have b: "http_client (close_http_client (serving (Responded page_v1) 0)) = None"
    by (simp add: close_http_client_def)
  from no_client_runtime_error [OF a, of example_url] no_client_runtime_error [OF b, of example_url]
    a b show ?thesis
    by (simp add: initial_def)
qed

subsection \<open>The document a successful collection leaves\<close>

lemma to_mongo_dict_created_at:
  "created_at doc = now \<Longrightarrow> (to_mongo_dict doc)(''created_at'' \<mapsto> BTime now) = to_mongo_dict doc"
  by (rule ext) (simp add: to_mongo_dict_def)

lemma create_metadata_record_stored:
  assumes "create_metadata_record u s = (Inr doc, s')"
  obtains r where "remote s u = Responded r" "is_success r" "doc = candidate u r (clock s)"
    "stored u s'
       = Some (case stored u s of
                 None \<Rightarrow> (to_mongo_dict doc)(''_id'' \<mapsto> BId (length (metadata s)))
               | Some d \<Rightarrow> d ++ update_data_of doc)"
    "http_client s' = http_client s" "database s'" "db_online s'" "clock s' = clock s"
    "remote s' = remote s" "metadata s' = upserted doc (clock s) (metadata s)"
proof -
  from assms obtain r where r: "remote s u = Responded r" "is_success r"
    and db: "database s" "db_online s"
    and doc: "doc = candidate u r (clock s)"
    and fr: "s' = logger_info ''Metadata record upserted for %s'' [AStr u]
          ((effect (DbUpdate u) (fetched u r s))\<lparr>metadata :=
              update_one [(''url'', BStr u)] (update_data_of (candidate u r (clock s)))
                [''created_at'' \<mapsto> BTime (clock s)] (metadata s)\<rparr>)"
    by (rule create_metadata_record_Inr)
  have m: "metadata s' = upserted doc (clock s) (metadata s)"
    using fr doc by (simp add: upserted_def)
  have fields: "http_client s' = http_client s" "database s'" "db_online s'" "clock s' = clock s"
    "remote s' = remote s"
    using fr db by simp_all
  have "stored u s'
       = Some (case stored u s of
                 None \<Rightarrow> (to_mongo_dict doc)(''_id'' \<mapsto> BId (length (metadata s)))
               | Some d \<Rightarrow> d ++ update_data_of doc)"
  proof (cases "stored u s")
    case None
    then show ?thesis
      using upserted_absent [of doc "metadata s" "clock s"] m doc
      by (simp add: stored_def to_mongo_dict_created_at)
  next
    case (Some d)
    then show ?thesis
      using upserted_present [of doc "metadata s" d "clock s"] m doc
      by (simp add: stored_def)
  qed
  with r doc fields m that show ?thesis by blast
qed

lemma first_visit_state:
  "http_client first_visit \<noteq> None" "database first_visit" "db_online first_visit"
  "clock first_visit = 100"
  "stored example_url first_visit
     = Some ((to_mongo_dict (candidate example_url page_v1 100))(''_id'' \<mapsto> BId 0))"
proof -
  from first_visit_result obtain r where
    "stored example_url first_visit
       = Some (case stored example_url (serving (Responded page_v1) 100) of
                 None \<Rightarrow> (to_mongo_dict (candidate example_url page_v1 100))
                              (''_id'' \<mapsto> BId (length (metadata (serving (Responded page_v1) 100))))
               | Some d \<Rightarrow> d ++ update_data_of (candidate example_url page_v1 100))"
    "http_client first_visit = http_client (serving (Responded page_v1) 100)"
    "database first_visit" "db_online first_visit"
    "clock first_visit = clock (serving (Responded page_v1) 100)"
    by (rule create_metadata_record_stored)
  then show "http_client first_visit \<noteq> None" "database first_visit" "db_online first_visit"
    "clock first_visit = 100"
    "stored example_url first_visit
       = Some ((to_mongo_dict (candidate example_url page_v1 100))(''_id'' \<mapsto> BId 0))"
    by (simp_all add: stored_def find_one_def)
qed

lemma second_visit_result:
  "create_metadata_record example_url (first_visit\<lparr>clock := t, remote := (\<lambda>u. Responded page_v2)\<rparr>)
     = (Inr (candidate example_url page_v2 t), second_visit t)"
  unfolding second_visit_def
  by (simp add: create_metadata_record_success [where r = page_v2] first_visit_state)

lemma second_visit_stored:
  "stored example_url (second_visit t)
     = Some ((to_mongo_dict (candidate example_url page_v1 100))(''_id'' \<mapsto> BId 0)
               ++ update_data_of (candidate example_url page_v2 t))"
proof -
  have "stored example_url (first_visit\<lparr>clock := t, remote := (\<lambda>u. Responded page_v2)\<rparr>)
          = stored example_url first_visit"
    by (simp add: stored_def)
  with second_visit_result [of t] show ?thesis
    by (auto elim!: create_metadata_record_stored simp: first_visit_state)
qed


subsection \<open>A second collection\<close>





subsection \<open>The order of the two timestamps\<close>

lemma list_all_update_or_insert:
  "list_all P ds \<Longrightarrow>
     list_all P (update_or_insert flt st soi oid ds)
       = (case find (matches flt) ds of
            None \<Rightarrow> P ((map_of flt ++ st ++ soi)(''_id'' \<mapsto> oid))
          | Some d \<Rightarrow> P (d ++ st))"
  by (induction ds) auto

lemma ordered_fields:
  "d ''created_at'' = Some (BTime c) \<Longrightarrow> d ''updated_at'' = Some (BTime m) \<Longrightarrow> ordered d = (c \<le> m)"
  by (simp add: ordered_def)

lemma ordered_created:
  assumes "ordered d"
  obtains c where "d ''created_at'' = Some (BTime c)"
proof (cases "d ''created_at''")
  case None
  with assms show ?thesis by (simp add: ordered_def)
next
  case (Some v)
  with assms that show ?thesis by (cases v) (simp_all add: ordered_def)
qed

lemma ordered_updated:
  "d ''created_at'' = Some (BTime c) \<Longrightarrow> ordered (d ++ update_data_of doc) = (c \<le> updated_at doc)"
  by (rule ordered_fields) (simp_all add: map_add_def)

lemma list_all_upserted:
  assumes "list_all ordered ds"
  shows "list_all ordered (upserted doc now ds)
           = (case find_one [(''url'', BStr (url doc))] ds of
                None \<Rightarrow> now \<le> updated_at doc
              | Some d \<Rightarrow> ordered (d ++ update_data_of doc))"
proof -
  have ins: "ordered ((map_of [(''url'', BStr (url doc))] ++ update_data_of doc
                ++ [''created_at'' \<mapsto> BTime now])(''_id'' \<mapsto> BId (length ds)))
             = (now \<le> updated_at doc)"
    by (rule ordered_fields) (simp_all add: map_add_def)
  show ?thesis
    unfolding upserted_def update_one_def find_one_def
      list_all_update_or_insert [OF assms] ins ..
qed

text \<open>
  Claim C9, as stated, fails: \<open>created_at \<le> updated_at\<close> does not hold at all times.
  An update writes the wall-clock reading of its collection into \<open>updated_at\<close> without
  comparing it with the preserved \<open>created_at\<close>.  The example URL collected at clock 100
  and again at clock 50 is stored with \<open>created_at = 100\<close> and \<open>updated_at = 50\<close>.
\<close>

theorem clock_set_back_counterexample:
  "create_metadata_record example_url (serving (Responded page_v1) 100)
     = (Inr (candidate example_url page_v1 100), first_visit)
   \<and> create_metadata_record example_url
         (first_visit\<lparr>clock := 50, remote := (\<lambda>u. Responded page_v2)\<rparr>)
       = (Inr (candidate example_url page_v2 50), second_visit 50)
   \<and> map_option (\<lambda>d. (d ''created_at'', d ''updated_at'')) (stored example_url (second_visit 50))
       = Some (Some (BTime 100), Some (BTime 50))
   \<and> map_option ordered (stored example_url (second_visit 50)) = Some False"
proof -
  have "map_option (\<lambda>d. (d ''created_at'', d ''updated_at'')) (stored example_url (second_visit 50))
       = Some (Some (BTime 100), Some (BTime 50))"
    by (simp add: second_visit_stored map_add_def to_mongo_dict_def)
  moreover have "map_option ordered (stored example_url (second_visit 50)) = Some False"
    by (simp add: second_visit_stored ordered_def map_add_def to_mongo_dict_def)
  ultimately show ?thesis
    using first_visit_result second_visit_result [of 50] by simp
qed

text \<open>
  Claim C9, amended.  A successful collect-and-store that inserts the document sets
  \<open>created_at\<close> and \<open>updated_at\<close> to the same timestamp.  One that updates the document
  keeps \<open>created_at\<close> and sets \<open>updated_at\<close> to its own clock reading.  So, when every
  stored document had \<open>created_at \<le> updated_at\<close> before, every stored document has it
  afterwards exactly when that clock reading is no earlier than the preserved
  \<open>created_at\<close>.
\<close>

theorem timestamps_ordered_after_collection:
  assumes "create_metadata_record u s = (Inr doc, s')"
      and "list_all ordered (metadata s)"
  shows "(case stored u s of
            None \<Rightarrow>
              (\<exists>d'. stored u s' = Some d'
                  \<and> d' ''created_at'' = Some (BTime (clock s))
                  \<and> d' ''updated_at'' = Some (BTime (clock s)))
              \<and> list_all ordered (metadata s')
          | Some d \<Rightarrow>
              (\<exists>d' c. stored u s' = Some d'
                  \<and> d ''created_at'' = Some (BTime c)
                  \<and> d' ''created_at'' = Some (BTime c)
                  \<and> d' ''updated_at'' = Some (BTime (clock s))
                  \<and> (list_all ordered (metadata s') \<longleftrightarrow> c \<le> clock s)))"
proof -
  from assms(1) obtain r where doc: "doc = candidate u r (clock s)"
    and st: "stored u s'
       = Some (case stored u s of
                 None \<Rightarrow> (to_mongo_dict doc)(''_id'' \<mapsto> BId (length (metadata s)))
               | Some d \<Rightarrow> d ++ update_data_of doc)"
    and m: "metadata s' = upserted doc (clock s) (metadata s)"
    by (rule create_metadata_record_stored)
  have all: "list_all ordered (metadata s')
           = (case stored u s of
                None \<Rightarrow> clock s \<le> updated_at doc
              | Some d \<Rightarrow> ordered (d ++ update_data_of doc))"
    using list_all_upserted [OF assms(2), of doc "clock s"] m doc by (simp add: stored_def)
  show ?thesis
  proof (cases "stored u s")
    case None
    with st all doc show ?thesis by (simp add: to_mongo_dict_def)
  next
    case (Some d)
    have "d \<in> set (metadata s)"
      using Some by (auto simp: stored_def find_one_def dest: find_Some_iff [THEN iffD1] nth_mem)
    with assms(2) have "ordered d" by (simp add: list_all_iff)
    then obtain c where c: "d ''created_at'' = Some (BTime c)" by (rule ordered_created)
    have "list_all ordered (metadata s') = (c \<le> clock s)"
      using all Some ordered_updated [where d = d and c = c and doc = doc] c doc by simp
    moreover have "(d ++ update_data_of doc) ''created_at'' = Some (BTime c)"
      "(d ++ update_data_of doc) ''updated_at'' = Some (BTime (clock s))"
      using c doc by (simp_all add: map_add_def)
    ultimately show ?thesis using Some st c by simp
  qed
qed

theorem timestamps_ordered_after_collection_witness:
  "create_metadata_record example_url
         (first_visit\<lparr>clock := 200, remote := (\<lambda>u. Responded page_v2)\<rparr>)
       = (Inr (candidate example_url page_v2 200), second_visit 200)
   \<and> list_all ordered (metadata first_visit)
   \<and> list_all ordered (metadata (second_visit 200))"
proof -
  have o: "list_all ordered (metadata (serving (Responded page_v1) 100))" by simp
  have n: "stored example_url (serving (Responded page_v1) 100) = None"
    by (simp add: stored_def find_one_def)
  from timestamps_ordered_after_collection [OF first_visit_result o] n
  have o1: "list_all ordered (metadata first_visit)" by simp
  then have o1': "list_all ordered (metadata (first_visit\<lparr>clock := 200, remote := (\<lambda>u. Responded page_v2)\<rparr>))"
    by simp
  have s1: "stored example_url (first_visit\<lparr>clock := 200, remote := (\<lambda>u. Responded page_v2)\<rparr>)
      = Some ((to_mongo_dict (candidate example_url page_v1 100))(''_id'' \<mapsto> BId 0))"
    using first_visit_state(5) by (simp add: stored_def)
  from timestamps_ordered_after_collection [OF second_visit_result [of 200] o1'] s1
  have "list_all ordered (metadata (second_visit 200))"
    by (auto simp: to_mongo_dict_def)
  with o1 second_visit_result [of 200] show ?thesis by simp
qed

subsection \<open>Repeated scheduling\<close>

text \<open>
  A call for a URL that follows another call for it, the task not yet finished, starts
  nothing: whatever the first call returned, the second returns \<open>False\<close>.
\<close>

lemma second_call_refused:
  "fst (schedule_background_collection u (snd (schedule_background_collection u s))) = False"
  by (simp add: schedule_background_collection_def)

lemma pending_survives_scheduling:
  "u \<in> pending_urls s \<Longrightarrow> u \<in> pending_urls (snd (schedule_background_collection v s))"
  by (simp add: schedule_background_collection_def)

text \<open>
  Of any number of calls made one after the other, no task finishing in between, at most
  one call for a URL returns \<open>True\<close>: exactly one when the URL was not in flight and
  is called for at all.
\<close>

lemma schedule_each_accepts_once:
  "accepted u vs (fst (schedule_each vs s))
     = (if u \<in> pending_urls s \<or> u \<notin> set vs then 0 else 1)"
proof (induction vs arbitrary: s)
  case Nil
  then show ?case by (simp add: accepted_def)
next
  case (Cons v vs)
  let ?s1 = "snd (schedule_background_collection v s)"
  have p: "pending_urls ?s1 = insert v (pending_urls s)"
    by (auto simp: schedule_background_collection_def)
  have b: "fst (schedule_background_collection v s) = (v \<notin> pending_urls s)"
    by (simp add: schedule_background_collection_def)
  have "accepted u (v # vs) (fst (schedule_each (v # vs) s))
      = (if v = u \<and> v \<notin> pending_urls s then 1 else 0) + accepted u vs (fst (schedule_each vs ?s1))"
    using b by (auto simp: accepted_def case_prod_beta)
  also have "\<dots> = (if u \<in> pending_urls s \<or> u \<notin> set (v # vs) then 0 else 1)"
    unfolding Cons.IH [of ?s1] p by auto
  finally show ?case .
qed

lemma length_schedule_each: "length (fst (schedule_each vs s)) = length vs"
  by (induction vs arbitrary: s) (simp_all add: case_prod_beta)

subsection \<open>The read path\<close>

lemma prefix_example_url [simp]: "prefix ''https://'' example_url"
  by (simp add: example_url_def)

lemma get_metadata_miss:
  assumes "prefix ''http://'' u \<or> prefix ''https://'' u" "database s" "db_online s"
      "stored u s = None"
  shows "get_metadata u s
           = (Inr (Accepted202 (AcceptedResponse
                ''Request accepted. Metadata is being collected in the background.'' u)),
              snd (schedule_background_collection u (effect (DbFind u) s)))"
  using assms
  by (simp add: get_metadata_def get_metadata_record_def find_metadata_by_url_miss case_prod_beta)

lemma get_metadata_hit:
  assumes "prefix ''http://'' u \<or> prefix ''https://'' u" "database s" "db_online s"
      "stored u s = Some d"
      "d ''url'' = Some (BStr u')" "d ''headers'' = Some (BDict hs)"
      "d ''cookies'' = Some (BDict cs)" "d ''page_source'' = Some (BStr src)"
      "d ''created_at'' = Some (BTime ca)" "d ''updated_at'' = Some (BTime ua)"
  shows "get_metadata u s
           = (Inr (Ok200 (MetadataResponse u' hs cs src ca ua)), effect (DbFind u) s)"
  using assms(1) find_metadata_by_url_hit [OF assms(2-10)]
  by (simp add: get_metadata_def get_metadata_record_def model_dump_response_def)

lemma get_metadata_rejects:
  "\<not> (prefix ''http://'' u \<or> prefix ''https://'' u) \<Longrightarrow>
     get_metadata u s = (Inl (HTTPException 400 ''URL must start with http:// or https://''), s)"
  by (simp add: get_metadata_def)

text \<open>Every document the service writes is complete, so the collection stays complete.\<close>

lemma complete_updated: "complete d \<Longrightarrow> complete (d ++ update_data_of doc)"
  by (simp add: complete_def map_add_def)

lemma complete_inserted:
  "complete ((m ++ update_data_of doc)(''created_at'' \<mapsto> BTime now, ''_id'' \<mapsto> oid))"
  by (simp add: complete_def map_add_def)

lemma upserted_complete:
  assumes "list_all complete ds"
  shows "list_all complete (upserted doc now ds)"
  unfolding upserted_def update_one_def list_all_update_or_insert [OF assms]
  using assms
  by (auto simp: complete_inserted complete_updated list_all_iff split: option.splits
        dest!: find_Some_iff [THEN iffD1])

lemma run_complete:
  assumes "list_all complete (metadata s)"
  shows "list_all complete (metadata (run es s))"
  using assms
proof (induction es arbitrary: s)
  case Nil
  then show ?case by (simp add: run_def)
next
  case (Cons e es)
  have "list_all complete (metadata (step e s))"
    using step_writes [of e s] Cons.prems upserted_complete by auto
  from Cons.IH [OF this] show ?case by (simp add: run_def)
qed

lemma complete_fields:
  assumes "complete d"
  obtains u hs cs src ca ua where
    "d ''url'' = Some (BStr u)" "d ''headers'' = Some (BDict hs)" "d ''cookies'' = Some (BDict cs)"
    "d ''page_source'' = Some (BStr src)" "d ''created_at'' = Some (BTime ca)"
    "d ''updated_at'' = Some (BTime ua)"
proof -
  have s: "is_str x \<Longrightarrow> \<exists>v. x = Some (BStr v)" for x by (cases x rule: is_str.cases) simp_all
  have d: "is_dict x \<Longrightarrow> \<exists>v. x = Some (BDict v)" for x by (cases x rule: is_dict.cases) simp_all
  have t: "is_time x \<Longrightarrow> \<exists>v. x = Some (BTime v)" for x by (cases x rule: is_time.cases) simp_all
  from assms s d t that show ?thesis unfolding complete_def by metis
qed

text \<open>
  Claim C8, as stated, fails in its last part: the miss outcome does not carry whether a
  job was newly scheduled.  \<open>get_metadata\<close> drops the result of
  \<open>schedule_background_collection\<close> and answers 202 with the same body either way.  For
  the example URL and an empty collection, the answer is the same whether the URL is
  already in flight (the call returns \<open>False\<close>) or not (it returns \<open>True\<close>).
\<close>

theorem miss_outcome_counterexample:
  "fst (get_metadata example_url (serving (Responded page_v1) 0))
     = fst (get_metadata example_url busy)
   \<and> fst (schedule_background_collection example_url
            (effect (DbFind example_url) (serving (Responded page_v1) 0)))
   \<and> \<not> fst (schedule_background_collection example_url (effect (DbFind example_url) busy))
   \<and> tasks (snd (get_metadata example_url (serving (Responded page_v1) 0)))
       = tasks (serving (Responded page_v1) 0) @ [example_url]
   \<and> tasks (snd (get_metadata example_url busy)) = tasks busy"
proof -
  have b: "database busy" "db_online busy" "stored example_url busy = None"
    "pending_urls busy = {example_url}"
    by (simp_all add: busy_def stored_def find_one_def)
  have f: "stored example_url (serving (Responded page_v1) 0) = None"
    by (simp add: stored_def find_one_def)
  show ?thesis
    by (simp add: get_metadata_miss b f schedule_background_collection_def)
qed


text \<open>
  Claim C8, amended.  For a URL that starts with \<open>http://\<close> or \<open>https://\<close> (any other is
  refused with status 400 before the lookup) and a database that answers: when a document
  for the URL is stored, \<open>get_metadata\<close> answers 200 with the six fields of that document
  as they are stored, and nothing happens but the one lookup (no scheduling, no write);
  when none is stored, it calls \<open>schedule_background_collection\<close> once and answers 202
  with the acknowledgement message and the URL, without fetching anything.  The answer is
  the same whether or not a job was newly scheduled; that shows only in the in-flight set
  and the task list.
\<close>

theorem get_metadata_hit_or_miss:
  assumes "prefix ''http://'' u \<or> prefix ''https://'' u"
      and "database s" and "db_online s"
  shows "(case stored u s of
            None \<Rightarrow>
              get_metadata u s
                = (Inr (Accepted202 (AcceptedResponse
                     ''Request accepted. Metadata is being collected in the background.'' u)),
                   snd (schedule_background_collection u (effect (DbFind u) s)))
              \<and> trace (snd (get_metadata u s)) = trace s @ [DbFind u]
              \<and> metadata (snd (get_metadata u s)) = metadata s
              \<and> pending_urls (snd (get_metadata u s)) = insert u (pending_urls s)
          | Some d \<Rightarrow>
              (\<forall>u' hs cs src ca ua.
                 d ''url'' = Some (BStr u') \<and> d ''headers'' = Some (BDict hs)
                 \<and> d ''cookies'' = Some (BDict cs) \<and> d ''page_source'' = Some (BStr src)
                 \<and> d ''created_at'' = Some (BTime ca) \<and> d ''updated_at'' = Some (BTime ua)
                 \<longrightarrow> get_metadata u s
                       = (Inr (Ok200 (MetadataResponse u' hs cs src ca ua)),
                          effect (DbFind u) s)))"
proof (cases "stored u s")
  case None
  have g: "get_metadata u s
      = (Inr (Accepted202 (AcceptedResponse
           ''Request accepted. Metadata is being collected in the background.'' u)),
         snd (schedule_background_collection u (effect (DbFind u) s)))"
    using assms None by (rule get_metadata_miss)
  have "trace (snd (schedule_background_collection u (effect (DbFind u) s))) = trace s @ [DbFind u]"
    "metadata (snd (schedule_background_collection u (effect (DbFind u) s))) = metadata s"
    "pending_urls (snd (schedule_background_collection u (effect (DbFind u) s)))
       = insert u (pending_urls s)"
    by (auto simp: schedule_background_collection_def)
  with g None show ?thesis by simp
next
  case (Some d)
  then show ?thesis
    using get_metadata_hit [OF assms, of d] by simp
qed

theorem get_metadata_hit_or_miss_witness:
  "get_metadata example_url first_visit
     = (Inr (Ok200 (MetadataResponse example_url [''content-type'' \<mapsto> ''text/html'']
                      Map.empty ''<html>v1</html>'' 100 100)),
        effect (DbFind example_url) first_visit)
   \<and> get_metadata example_url (serving (Responded page_v1) 0)
       = (Inr (Accepted202 (AcceptedResponse
            ''Request accepted. Metadata is being collected in the background.'' example_url)),
          snd (schedule_background_collection example_url
                 (effect (DbFind example_url) (serving (Responded page_v1) 0))))
   \<and> pending_urls (snd (get_metadata example_url (serving (Responded page_v1) 0)))
       = {example_url}"
proof -
  have p: "prefix ''http://'' example_url \<or> prefix ''https://'' example_url" by simp
  have n: "stored example_url (serving (Responded page_v1) 0) = None"
    by (simp add: stored_def find_one_def)
  have pg: "resp_headers page_v1 = [''content-type'' \<mapsto> ''text/html'']"
    "resp_cookies page_v1 = Map.empty" "body_text page_v1 = ''<html>v1</html>''"
    by (simp_all add: page_v1_def)
  from get_metadata_hit_or_miss [OF p first_visit_state(2,3)]
  have "get_metadata example_url first_visit
     = (Inr (Ok200 (MetadataResponse example_url [''content-type'' \<mapsto> ''text/html'']
                      Map.empty ''<html>v1</html>'' 100 100)),
        effect (DbFind example_url) first_visit)"
    by (simp add: first_visit_state(5) to_mongo_dict_def pg)
  moreover have d: "database (serving (Responded page_v1) 0)" "db_online (serving (Responded page_v1) 0)"
    by simp_all
  note c = get_metadata_hit_or_miss [OF p d, unfolded n option.case]
  have "get_metadata example_url (serving (Responded page_v1) 0)
       = (Inr (Accepted202 (AcceptedResponse
            ''Request accepted. Metadata is being collected in the background.'' example_url)),
          snd (schedule_background_collection example_url
                 (effect (DbFind example_url) (serving (Responded page_v1) 0))))"
    by (rule c [THEN conjunct1])
  moreover have "pending_urls (snd (get_metadata example_url (serving (Responded page_v1) 0)))
       = insert example_url (pending_urls (serving (Responded page_v1) 0))"
    by (rule c [THEN conjunct2, THEN conjunct2, THEN conjunct2])
  ultimately show ?thesis by simp
qed

end
